theory Spec2Isabelle
  imports Complex_Main
begin

section \<open>Numbers, exceptions and pandas frames\<close>

text \<open>
  A \<open>numpy.float64\<close> is a finite number, an infinity or \<open>nan\<close>. A finite double is
  modelled by the real number it denotes: the rounding of an operation, overflow and the
  sign of zero are not part of the model. The operations are those of IEEE arithmetic on
  the special values: they never raise.
\<close>

datatype f64 = Fin real | PosInf | NegInf | NaN

fun f64_neg :: "f64 \<Rightarrow> f64" where
  "f64_neg (Fin a) = Fin (- a)"
| "f64_neg PosInf = NegInf"
| "f64_neg NegInf = PosInf"
| "f64_neg NaN = NaN"

fun f64_add :: "f64 \<Rightarrow> f64 \<Rightarrow> f64" where
  "f64_add (Fin a) (Fin b) = Fin (a + b)"
| "f64_add NaN y = NaN"
| "f64_add x NaN = NaN"
| "f64_add PosInf NegInf = NaN"
| "f64_add NegInf PosInf = NaN"
| "f64_add PosInf y = PosInf"
| "f64_add NegInf y = NegInf"
| "f64_add x PosInf = PosInf"
| "f64_add x NegInf = NegInf"

definition f64_sub :: "f64 \<Rightarrow> f64 \<Rightarrow> f64" where
  "f64_sub x y = f64_add x (f64_neg y)"

fun f64_mul :: "f64 \<Rightarrow> f64 \<Rightarrow> f64" where
  "f64_mul (Fin a) (Fin b) = Fin (a * b)"
| "f64_mul NaN y = NaN"
| "f64_mul x NaN = NaN"
| "f64_mul PosInf PosInf = PosInf"
| "f64_mul PosInf NegInf = NegInf"
| "f64_mul NegInf PosInf = NegInf"
| "f64_mul NegInf NegInf = PosInf"
| "f64_mul PosInf (Fin b) = (if b = 0 then NaN else if 0 < b then PosInf else NegInf)"
| "f64_mul NegInf (Fin b) = (if b = 0 then NaN else if 0 < b then NegInf else PosInf)"
| "f64_mul (Fin a) PosInf = (if a = 0 then NaN else if 0 < a then PosInf else NegInf)"
| "f64_mul (Fin a) NegInf = (if a = 0 then NaN else if 0 < a then NegInf else PosInf)"

fun f64_div :: "f64 \<Rightarrow> f64 \<Rightarrow> f64" where
  "f64_div (Fin a) (Fin b) =
     (if b = 0 then (if a = 0 then NaN else if 0 < a then PosInf else NegInf)
      else Fin (a / b))"
| "f64_div NaN y = NaN"
| "f64_div x NaN = NaN"
| "f64_div (Fin a) PosInf = Fin 0"
| "f64_div (Fin a) NegInf = Fin 0"
| "f64_div PosInf (Fin b) = (if b < 0 then NegInf else PosInf)"
| "f64_div NegInf (Fin b) = (if b < 0 then PosInf else NegInf)"
| "f64_div PosInf y = NaN"
| "f64_div NegInf y = NaN"

text \<open>\<open>x > 0\<close> on a double: false for \<open>nan\<close>.\<close>

fun f64_positive :: "f64 \<Rightarrow> bool" where
  "f64_positive (Fin a) = (0 < a)"
| "f64_positive PosInf = True"
| "f64_positive NegInf = False"
| "f64_positive NaN = False"

text \<open>
  A number of the program is a Python \<open>int\<close> or \<open>float\<close> (\<open>Py\<close>: the constants of the
  module and what is computed from them alone, always finite) or a \<open>numpy.float64\<close>
  (\<open>Np\<close>: what is read from a frame and everything computed from it). An operation with
  a numpy operand gives a numpy number.
\<close>

datatype num = Py real | Np f64

fun to_f64 :: "num \<Rightarrow> f64" where
  "to_f64 (Py a) = Fin a"
| "to_f64 (Np x) = x"

fun num_add :: "num \<Rightarrow> num \<Rightarrow> num" where
  "num_add (Py a) (Py b) = Py (a + b)"
| "num_add x y = Np (f64_add (to_f64 x) (to_f64 y))"

fun num_sub :: "num \<Rightarrow> num \<Rightarrow> num" where
  "num_sub (Py a) (Py b) = Py (a - b)"
| "num_sub x y = Np (f64_sub (to_f64 x) (to_f64 y))"

fun num_mul :: "num \<Rightarrow> num \<Rightarrow> num" where
  "num_mul (Py a) (Py b) = Py (a * b)"
| "num_mul x y = Np (f64_mul (to_f64 x) (to_f64 y))"

datatype exn = KeyError string | IndexError | AttributeError | ZeroDivisionError

text \<open>
  \<open>x / y\<close>: between two Python numbers a zero divisor raises; with a numpy operand the
  quotient is an infinity or \<open>nan\<close> and nothing is raised.
\<close>

fun truediv :: "num \<Rightarrow> num \<Rightarrow> exn + num" where
  "truediv (Py a) (Py b) = (if b = 0 then Inl ZeroDivisionError else Inr (Py (a / b)))"
| "truediv x y = Inr (Np (f64_div (to_f64 x) (to_f64 y)))"

text \<open>\<open>x > 0\<close>, \<open>x == 0\<close> and the truth value of a number (\<open>nan\<close> is true).\<close>

definition num_positive :: "num \<Rightarrow> bool" where
  "num_positive x = f64_positive (to_f64 x)"

definition num_is_zero :: "num \<Rightarrow> bool" where
  "num_is_zero x = (to_f64 x = Fin 0)"

text \<open>
  What the overview page shows through \<open>st.warning\<close> and \<open>st.error\<close>:
  \<open>NoDataWarning\<close> is "No data available for some tickers: ...", \<open>DownloadError\<close> is
  "Error downloading data: ...", \<open>PriceWarning t\<close> is "Failed to get current price for t.
  Using purchase price instead.", and \<open>MetricsError e\<close> is "Error calculating portfolio
  metrics: " followed by \<open>str(e)\<close>.
\<close>

datatype message = NoDataWarning | DownloadError | PriceWarning string | MetricsError exn

text \<open>\<open>d[k]\<close> on a dict.\<close>

definition getitem :: "(string \<rightharpoonup> 'a) \<Rightarrow> string \<Rightarrow> exn + 'a" where
  "getitem d k = (case d k of None \<Rightarrow> Inl (KeyError k) | Some v \<Rightarrow> Inr v)"

text \<open>Sequencing: the first exception raised ends the computation.\<close>

definition and_then :: "exn + 'a \<Rightarrow> ('a \<Rightarrow> exn + 'b) \<Rightarrow> exn + 'b" where
  "and_then m f = (case m of Inl e \<Rightarrow> Inl e | Inr x \<Rightarrow> f x)"

text \<open>\<open>(q - 1) * 100\<close>, the percentage of a quotient.\<close>

definition percent :: "num \<Rightarrow> num" where
  "percent q = num_mul (num_sub q (Py 1)) (Py 100)"

text \<open>
  A \<open>pd.Series\<close> of quotes is the list of its values, which may be \<open>nan\<close>. A
  \<open>pd.DataFrame\<close> is the list of its columns, each a name with the column's values;
  every column of a frame has the same length, the number of rows. \<open>pd.DataFrame()\<close> is
  the frame with no column.
\<close>

type_synonym series = "f64 list"

type_synonym dataframe = "(string \<times> series) list"

text \<open>\<open>df.empty\<close>: no column, or no row.\<close>

definition df_empty :: "dataframe \<Rightarrow> bool" where
  "df_empty df = (case df of [] \<Rightarrow> True | (c, xs) # rest \<Rightarrow> xs = [])"

text \<open>\<open>name in df\<close>, which tests the column names.\<close>

definition df_contains :: "dataframe \<Rightarrow> string \<Rightarrow> bool" where
  "df_contains df name = (map_of df name \<noteq> None)"

text \<open>\<open>df[name]\<close>.\<close>

definition df_getitem :: "dataframe \<Rightarrow> string \<Rightarrow> exn + series" where
  "df_getitem df name = (case map_of df name of None \<Rightarrow> Inl (KeyError name) | Some xs \<Rightarrow> Inr xs)"

text \<open>\<open>s.iloc[0]\<close> and \<open>s.iloc[-1]\<close>: a numpy number.\<close>

definition iloc_first :: "series \<Rightarrow> exn + num" where
  "iloc_first s = (case s of [] \<Rightarrow> Inl IndexError | x # rest \<Rightarrow> Inr (Np x))"

definition iloc_last :: "series \<Rightarrow> exn + num" where
  "iloc_last s = (if s = [] then Inl IndexError else Inr (Np (last s)))"

text \<open>
  \<open>s.sum()\<close> on a column of numbers: pandas leaves the \<open>nan\<close> entries out and returns
  a numpy number.
\<close>

definition series_sum :: "num list \<Rightarrow> num" where
  "series_sum xs = Np (foldl f64_add (Fin 0) (filter (\<lambda>x. x \<noteq> NaN) (map to_f64 xs)))"

text \<open>
  \<open>download_data\<close> of the three detail pages: the fetched frame, or \<open>pd.DataFrame()\<close>
  when the fetch raises (\<open>None\<close>) or the frame is empty.
\<close>

definition download_data :: "dataframe option \<Rightarrow> dataframe" where
  "download_data fetched =
     (case fetched of None \<Rightarrow> [] | Some data \<Rightarrow> if \<not> df_empty data then data else [])"

text \<open>
  A loop that appends one entry per element, in the order of the list, and stops at the
  first exception.
\<close>

fun collect :: "('a \<Rightarrow> exn + 'b) \<Rightarrow> 'a list \<Rightarrow> exn + 'b list" where
  "collect body [] = Inr []"
| "collect body (x # xs) =
     and_then (body x) (\<lambda>r.
     and_then (collect body xs) (\<lambda>rs. Inr (r # rs)))"

section \<open>The USA page (\<open>pages/dashboard_usa.py\<close>)\<close>

text \<open>
  One entry of \<open>portfolio_data\<close>. The formatted strings of the entry (shares and the
  two prices) are kept as the numbers they format.
\<close>

record row =
  Ticker :: string
  Shares_Owned :: real
  Purchase_Price :: num
  Current_Price :: num
  Invested_Value :: num
  Current_Value :: num
  Performance :: num

record report =
  report_rows :: "row list"
  report_invested :: num
  report_current :: num
  report_performance :: num

text \<open>
  The body of the loop over \<open>portfolio_usa\<close> in \<open>main\<close>. A ticker with no column in
  the frame gets the current price \<open>0\<close>.
\<close>

definition usa_row ::
  "(string \<rightharpoonup> real) \<Rightarrow> (string \<rightharpoonup> real) \<Rightarrow> dataframe \<Rightarrow> string \<Rightarrow> exn + row" where
  "usa_row shares_owned_usa purchase_prices_usa current_prices_usa ticker =
     and_then (getitem shares_owned_usa ticker) (\<lambda>shares.
     and_then (getitem purchase_prices_usa ticker) (\<lambda>purchase_price.
     and_then (if df_contains current_prices_usa ticker
               then and_then (df_getitem current_prices_usa ticker) iloc_first
               else Inr (Py 0)) (\<lambda>current_price.
       (let invested_value = num_mul (Py shares) (Py purchase_price);
            current_value = num_mul (Py shares) current_price in
     and_then (if num_positive invested_value
               then and_then (truediv current_value invested_value) (\<lambda>q. Inr (percent q))
               else Inr (Py 0)) (\<lambda>performance.
        Inr \<lparr>Ticker = ticker, Shares_Owned = shares, Purchase_Price = Py purchase_price,
             Current_Price = current_price, Invested_Value = invested_value,
             Current_Value = current_value, Performance = performance\<rparr>)))))"

text \<open>
  \<open>df[name]\<close> on the frame built from \<open>portfolio_data\<close>: a frame built from no
  entry has no column, so the lookup raises.
\<close>

definition column :: "string \<Rightarrow> (row \<Rightarrow> num) \<Rightarrow> row list \<Rightarrow> exn + num list" where
  "column name field rs = (if rs = [] then Inl (KeyError name) else Inr (map field rs))"

text \<open>
  \<open>main\<close>: \<open>Inr None\<close> is the early return after "Error loading data", \<open>Inl e\<close> an
  exception that leaves \<open>main\<close>, \<open>Inr (Some r)\<close> the figures the page shows.
\<close>

definition usa_main ::
  "string list \<Rightarrow> (string \<rightharpoonup> real) \<Rightarrow> (string \<rightharpoonup> real) \<Rightarrow> dataframe \<Rightarrow> exn + report option" where
  "usa_main portfolio_usa shares_owned_usa purchase_prices_usa current_prices_usa =
     (if df_empty current_prices_usa then Inr None
      else
        and_then (collect (usa_row shares_owned_usa purchase_prices_usa current_prices_usa)
                    portfolio_usa) (\<lambda>portfolio_data.
        and_then (column ''Invested Value (USD)'' Invested_Value portfolio_data) (\<lambda>invested.
        and_then (column ''Current Value (USD)'' Current_Value portfolio_data) (\<lambda>current.
          (let total_invested = series_sum invested;
               total_current = series_sum current in
        and_then (if num_positive total_invested
                  then and_then (truediv total_current total_invested) (\<lambda>q. Inr (percent q))
                  else Inr (Py 0)) (\<lambda>total_performance.
           Inr (Some \<lparr>report_rows = portfolio_data, report_invested = total_invested,
                       report_current = total_current,
                       report_performance = total_performance\<rparr>)))))))"

section \<open>The Hong Kong page (\<open>pages/dashboard_hk.py\<close>)\<close>

text \<open>The outcome of \<open>yf.download('HKD=X', period='1d')\<close>: it raises, or returns a frame.\<close>

datatype fx_fetch = FetchRaises | FetchFrame dataframe

text \<open>
  \<open>get_fx_rate\<close> of the Hong Kong page: \<open>1 / quote\<close> for the first quote of the frame
  (an infinity for the quote 0), \<open>1 / 7.85\<close> for an empty frame, and \<open>0.128\<close> when
  anything inside the \<open>try\<close> raises (the fetch, a missing column).
\<close>

definition hk_get_fx_rate :: "fx_fetch \<Rightarrow> num" where
  "hk_get_fx_rate fetched =
     (case fetched of
        FetchRaises \<Rightarrow> Py 0.128
      | FetchFrame fx_data \<Rightarrow>
          (case and_then (if \<not> df_empty fx_data
                          then and_then (df_getitem fx_data ''Adj Close'') iloc_first
                          else Inr (Py 7.85))
                  (\<lambda>fx_rate_usd_to_hkd. truediv (Py 1) fx_rate_usd_to_hkd) of
             Inl e \<Rightarrow> Py 0.128
           | Inr rate \<Rightarrow> rate))"

text \<open>
  The body of the loop over \<open>portfolio_hk\<close> in \<open>main\<close>: nothing is guarded. The
  current price is a numpy number, so the division never raises.
\<close>

definition hk_row ::
  "(string \<rightharpoonup> real) \<Rightarrow> (string \<rightharpoonup> real) \<Rightarrow> dataframe \<Rightarrow> num \<Rightarrow> string \<Rightarrow> exn + row" where
  "hk_row shares_owned_hk purchase_prices_hk current_prices_hk fx_rate_hkd_to_usd ticker =
     and_then (getitem shares_owned_hk ticker) (\<lambda>shares.
     and_then (getitem purchase_prices_hk ticker) (\<lambda>purchase_price.
     (let purchase_price_usd = num_mul (Py purchase_price) fx_rate_hkd_to_usd in
     and_then (and_then (df_getitem current_prices_hk ticker) iloc_first) (\<lambda>current_price.
     (let current_price_usd = num_mul current_price fx_rate_hkd_to_usd;
          invested_value = num_mul (Py shares) purchase_price_usd;
          current_value = num_mul (Py shares) current_price_usd in
     and_then (truediv current_value invested_value) (\<lambda>q.
      Inr \<lparr>Ticker = ticker, Shares_Owned = shares, Purchase_Price = purchase_price_usd,
           Current_Price = current_price_usd, Invested_Value = invested_value,
           Current_Value = current_value, Performance = percent q\<rparr>))))))"

definition hk_main ::
  "string list \<Rightarrow> (string \<rightharpoonup> real) \<Rightarrow> (string \<rightharpoonup> real) \<Rightarrow> dataframe \<Rightarrow> num
     \<Rightarrow> exn + report option" where
  "hk_main portfolio_hk shares_owned_hk purchase_prices_hk current_prices_hk fx_rate_hkd_to_usd =
     (if df_empty current_prices_hk then Inr None
      else
        and_then (collect
                    (hk_row shares_owned_hk purchase_prices_hk current_prices_hk fx_rate_hkd_to_usd)
                    portfolio_hk) (\<lambda>portfolio_data.
        and_then (column ''Invested Value (USD)'' Invested_Value portfolio_data) (\<lambda>invested.
        and_then (column ''Current Value (USD)'' Current_Value portfolio_data) (\<lambda>current.
          (let total_invested = series_sum invested;
               total_current = series_sum current in
        and_then (truediv total_current total_invested) (\<lambda>q.
           Inr (Some \<lparr>report_rows = portfolio_data, report_invested = total_invested,
                       report_current = total_current,
                       report_performance = percent q\<rparr>)))))))"

section \<open>The detail page (\<open>pages/dashboard_detail.py\<close>)\<close>

text \<open>One purchase of a ticker, an entry of \<open>positions[ticker]\<close>.\<close>

record lot =
  lot_shares :: real
  lot_price :: real
  lot_date :: string

text \<open>One entry of \<open>stock_data\<close>, with the numbers its strings format.\<close>

record lot_row =
  Purchase_Date :: string
  Lot_Shares :: real
  Lot_Purchase_Price :: real
  Lot_Current_Price :: num
  Lot_Invested_Value :: num
  Lot_Current_Value :: num
  Lot_Performance :: num

record detail_report =
  stock_data :: "lot_row list"
  detail_total_shares :: num
  detail_total_invested :: num
  detail_current_value :: num
  detail_performance :: num

text \<open>The builtin \<open>sum\<close> of a list of numbers: from \<open>0\<close>, adding from the left.\<close>

definition py_sum :: "num list \<Rightarrow> num" where
  "py_sum xs = foldl num_add (Py 0) xs"

definition detail_row :: "num \<Rightarrow> lot \<Rightarrow> exn + lot_row" where
  "detail_row current_price pos =
     (let current_value_pos = num_mul (Py (lot_shares pos)) current_price;
          invested_value_pos = num_mul (Py (lot_shares pos)) (Py (lot_price pos)) in
      and_then (truediv current_value_pos invested_value_pos) (\<lambda>q.
        Inr \<lparr>Purchase_Date = lot_date pos, Lot_Shares = lot_shares pos,
             Lot_Purchase_Price = lot_price pos, Lot_Current_Price = current_price,
             Lot_Invested_Value = invested_value_pos,
             Lot_Current_Value = current_value_pos,
             Lot_Performance = percent q\<rparr>))"

text \<open>
  \<open>main\<close> for the ticker chosen in the select box; \<open>historical_data\<close> and \<open>spy_data\<close>
  are the frames \<open>download_data\<close> returned. No exchange rate takes part.
\<close>

definition detail_main ::
  "(string \<rightharpoonup> lot list) \<Rightarrow> string \<Rightarrow> dataframe \<Rightarrow> dataframe \<Rightarrow> exn + detail_report option" where
  "detail_main positions selected_ticker historical_data spy_data =
     (if df_empty historical_data \<or> df_empty spy_data then Inr None
      else
        and_then (getitem positions selected_ticker) (\<lambda>lots.
        (let total_shares = py_sum (map (\<lambda>pos. Py (lot_shares pos)) lots);
             total_invested =
               py_sum (map (\<lambda>pos. num_mul (Py (lot_shares pos)) (Py (lot_price pos))) lots) in
        and_then (and_then (df_getitem historical_data ''Adj Close'') iloc_last) (\<lambda>current_price.
        (let current_value = num_mul total_shares current_price in
        and_then (truediv current_value total_invested) (\<lambda>q.
        and_then (collect (detail_row current_price) lots) (\<lambda>data.
          Inr (Some \<lparr>stock_data = data, detail_total_shares = total_shares,
                      detail_total_invested = total_invested,
                      detail_current_value = current_value,
                      detail_performance = percent q\<rparr>))))))))"

section \<open>The overview page (\<open>dashboard_general.py\<close>)\<close>

text \<open>
  \<open>download_data\<close> of the overview page, with the message it shows: the fetched frame
  also when it is empty, and \<open>pd.DataFrame()\<close> when the fetch raises (\<open>None\<close>).
\<close>

definition overview_download_data :: "dataframe option \<Rightarrow> message list \<times> dataframe" where
  "overview_download_data fetched =
     (case fetched of
        None \<Rightarrow> ([DownloadError], [])
      | Some data \<Rightarrow> (if df_empty data then [NoDataWarning] else [], data))"

text \<open>
  \<open>get_fx_rate\<close> of the overview page: \<open>1 / quote\<close> for the last quote of a frame that
  has rows and an \<open>Adj Close\<close> column, and \<open>None\<close> otherwise or when anything inside the
  \<open>try\<close> raises.
\<close>

definition get_fx_rate :: "fx_fetch \<Rightarrow> num option" where
  "get_fx_rate fetched =
     (case fetched of
        FetchRaises \<Rightarrow> None
      | FetchFrame fx_data \<Rightarrow>
          (if \<not> df_empty fx_data \<and> df_contains fx_data ''Adj Close''
           then (case and_then (and_then (df_getitem fx_data ''Adj Close'') iloc_last)
                        (\<lambda>usd_to_hkd. truediv (Py 1) usd_to_hkd) of
                   Inl e \<Rightarrow> None
                 | Inr rate \<Rightarrow> Some rate)
           else None))"

text \<open>\<open>get_fx_rate() or 0.128\<close>: \<open>None\<close> and the rate \<open>0\<close> are both falsy.\<close>

definition fx_rate_or_default :: "fx_fetch \<Rightarrow> num" where
  "fx_rate_or_default fetched =
     (case get_fx_rate fetched of
        None \<Rightarrow> Py 0.128
      | Some rate \<Rightarrow> if num_is_zero rate then Py 0.128 else rate)"

text \<open>The module's globals that \<open>calculate_portfolio_metrics\<close> reads.\<close>

record globals =
  portfolio_hk :: "string list"
  portfolio_usa :: "string list"
  shares_owned_hk :: "string \<rightharpoonup> real"
  shares_owned_usa :: "string \<rightharpoonup> real"
  purchase_prices_hk :: "string \<rightharpoonup> real"
  purchase_prices_usa :: "string \<rightharpoonup> real"
  current_prices_hk :: dataframe
  current_prices_usa :: dataframe
  fx_rate_hkd_to_usd :: num

text \<open>
  The three assignments before \<open>calculate_portfolio_metrics\<close> is defined: the two price
  frames and the rate, from the three fetches, with the messages shown.
\<close>

definition load_globals ::
  "globals \<Rightarrow> dataframe option \<Rightarrow> dataframe option \<Rightarrow> fx_fetch \<Rightarrow> message list \<times> globals" where
  "load_globals g fetched_hk fetched_usa fetched_fx =
     (case overview_download_data fetched_hk of (shown_hk, prices_hk) \<Rightarrow>
      case overview_download_data fetched_usa of (shown_usa, prices_usa) \<Rightarrow>
        (shown_hk @ shown_usa,
         g\<lparr>current_prices_hk := prices_hk, current_prices_usa := prices_usa,
           fx_rate_hkd_to_usd := fx_rate_or_default fetched_fx\<rparr>))"

text \<open>
  A running total is a number until the column of some ticker is an empty series: then
  \<open>current_price\<close> is that series, and every sum, product and quotient it enters is an
  empty series as well.
\<close>

datatype pyval = Num num | EmptySeries

fun val_map :: "(num \<Rightarrow> num) \<Rightarrow> pyval \<Rightarrow> pyval" where
  "val_map f (Num a) = Num (f a)"
| "val_map f EmptySeries = EmptySeries"

fun val_add :: "pyval \<Rightarrow> pyval \<Rightarrow> pyval" where
  "val_add (Num a) (Num b) = Num (num_add a b)"
| "val_add (Num a) EmptySeries = EmptySeries"
| "val_add EmptySeries v = EmptySeries"

text \<open>
  The value of a position: \<open>shares * price * fx_rate_hkd_to_usd\<close> in the Hong Kong
  sums, \<open>shares * price\<close> in the USA sums.
\<close>

definition hk_value :: "num \<Rightarrow> real \<Rightarrow> num \<Rightarrow> num" where
  "hk_value fx shares price = num_mul (num_mul (Py shares) price) fx"

definition usa_value :: "real \<Rightarrow> num \<Rightarrow> num" where
  "usa_value shares price = num_mul (Py shares) price"

text \<open>
  The invested value of one ticker, \<open>shares_owned[ticker] * purchase_prices[ticker]\<close>
  (times the rate in the Hong Kong sums): a term of the invested sum, and the term the
  \<open>except\<close> block adds to the current total.
\<close>

definition invested_term ::
  "(real \<Rightarrow> num \<Rightarrow> num) \<Rightarrow> (string \<rightharpoonup> real) \<Rightarrow> (string \<rightharpoonup> real) \<Rightarrow> string \<Rightarrow> exn + num" where
  "invested_term val so pp ticker =
     and_then (getitem so ticker) (\<lambda>shares.
     and_then (getitem pp ticker) (\<lambda>purchase_price. Inr (val shares (Py purchase_price))))"

text \<open>\<open>sum(... for ticker in portfolio)\<close>, from the left.\<close>

fun invested_sum ::
  "(real \<Rightarrow> num \<Rightarrow> num) \<Rightarrow> (string \<rightharpoonup> real) \<Rightarrow> (string \<rightharpoonup> real) \<Rightarrow> string list \<Rightarrow> num
     \<Rightarrow> exn + num" where
  "invested_sum val so pp [] acc = Inr acc"
| "invested_sum val so pp (ticker # tickers) acc =
     and_then (invested_term val so pp ticker) (\<lambda>v.
       invested_sum val so pp tickers (num_add acc v))"

text \<open>The \<open>try\<close> block of one round of a current-value loop: the term added to the total.\<close>

definition try_block ::
  "(real \<Rightarrow> num \<Rightarrow> num) \<Rightarrow> (string \<rightharpoonup> real) \<Rightarrow> dataframe \<Rightarrow> string \<Rightarrow> exn + pyval" where
  "try_block val so current_prices ticker =
     and_then (df_getitem current_prices ticker) (\<lambda>price.
     (let current_price = (if price \<noteq> [] then Num (Np (last price)) else EmptySeries) in
      and_then (getitem so ticker) (\<lambda>shares. Inr (val_map (val shares) current_price))))"

text \<open>\<open>except (IndexError, AttributeError, KeyError)\<close>.\<close>

fun handled :: "exn \<Rightarrow> bool" where
  "handled IndexError = True"
| "handled AttributeError = True"
| "handled (KeyError k) = True"
| "handled ZeroDivisionError = False"

text \<open>
  One round of a current-value loop: the messages it shows, and the term it adds to the
  total or the exception that leaves the loop.
\<close>

definition loop_round ::
  "(real \<Rightarrow> num \<Rightarrow> num) \<Rightarrow> (string \<rightharpoonup> real) \<Rightarrow> (string \<rightharpoonup> real) \<Rightarrow> dataframe \<Rightarrow> string
     \<Rightarrow> message list \<times> (exn + pyval)" where
  "loop_round val so pp cp ticker =
     (case try_block val so cp ticker of
        Inr added \<Rightarrow> ([], Inr added)
      | Inl e \<Rightarrow>
          (if handled e
           then ([PriceWarning ticker],
                 and_then (invested_term val so pp ticker) (\<lambda>v. Inr (Num v)))
           else ([], Inl e)))"

text \<open>
  A current-value loop, from the messages shown so far and the running total to the
  messages and the total after the last ticker, or the exception that leaves the loop.
\<close>

fun current_value_loop ::
  "(real \<Rightarrow> num \<Rightarrow> num) \<Rightarrow> (string \<rightharpoonup> real) \<Rightarrow> (string \<rightharpoonup> real) \<Rightarrow> dataframe \<Rightarrow> string list
     \<Rightarrow> message list \<Rightarrow> pyval \<Rightarrow> message list \<times> (exn + pyval)" where
  "current_value_loop val so pp cp [] shown running = (shown, Inr running)"
| "current_value_loop val so pp cp (ticker # tickers) shown running =
     (case loop_round val so pp cp ticker of
        (w, Inr added) \<Rightarrow>
          current_value_loop val so pp cp tickers (shown @ w) (val_add running added)
      | (w, Inl e) \<Rightarrow> (shown @ w, Inl e))"

text \<open>The dictionary \<open>calculate_portfolio_metrics\<close> returns.\<close>

record metrics =
  total_invested :: pyval
  total_current_hk :: pyval
  total_current_usa :: pyval
  total_current :: pyval
  performance_hk :: pyval
  performance_usa :: pyval

text \<open>\<open>0 if invested == 0 else (current / invested - 1) * 100\<close>.\<close>

definition guarded_performance :: "pyval \<Rightarrow> num \<Rightarrow> exn + pyval" where
  "guarded_performance current_value invested_value =
     (if num_is_zero invested_value then Inr (Num (Py 0))
      else (case current_value of
              EmptySeries \<Rightarrow> Inr EmptySeries
            | Num c \<Rightarrow> and_then (truediv c invested_value) (\<lambda>q. Inr (Num (percent q)))))"

text \<open>The body of the outer \<open>try\<close>, with the messages it shows.\<close>

definition try_metrics :: "globals \<Rightarrow> message list \<times> (exn + metrics)" where
  "try_metrics g =
     (case invested_sum (hk_value (fx_rate_hkd_to_usd g)) (shares_owned_hk g)
             (purchase_prices_hk g) (portfolio_hk g) (Py 0) of
        Inl e \<Rightarrow> ([], Inl e)
      | Inr total_invested_value_hk_usd \<Rightarrow>
     (case current_value_loop (hk_value (fx_rate_hkd_to_usd g)) (shares_owned_hk g)
             (purchase_prices_hk g) (current_prices_hk g) (portfolio_hk g) [] (Num (Py 0)) of
        (shown, Inl e) \<Rightarrow> (shown, Inl e)
      | (shown, Inr total_current_value_hk_usd) \<Rightarrow>
     (case invested_sum usa_value (shares_owned_usa g) (purchase_prices_usa g)
             (portfolio_usa g) (Py 0) of
        Inl e \<Rightarrow> (shown, Inl e)
      | Inr total_invested_value_usa \<Rightarrow>
     (case current_value_loop usa_value (shares_owned_usa g) (purchase_prices_usa g)
             (current_prices_usa g) (portfolio_usa g) shown (Num (Py 0)) of
        (shown', Inl e) \<Rightarrow> (shown', Inl e)
      | (shown', Inr total_current_value_usa) \<Rightarrow>
     (case guarded_performance total_current_value_hk_usd total_invested_value_hk_usd of
        Inl e \<Rightarrow> (shown', Inl e)
      | Inr performance_hk_value \<Rightarrow>
     (case guarded_performance total_current_value_usa total_invested_value_usa of
        Inl e \<Rightarrow> (shown', Inl e)
      | Inr performance_usa_value \<Rightarrow>
          (shown', Inr
            \<lparr>total_invested =
               Num (num_add total_invested_value_hk_usd total_invested_value_usa),
             total_current_hk = total_current_value_hk_usd,
             total_current_usa = total_current_value_usa,
             total_current = val_add total_current_value_hk_usd total_current_value_usa,
             performance_hk = performance_hk_value,
             performance_usa = performance_usa_value\<rparr>)))))))"

definition zero_metrics :: metrics where
  "zero_metrics =
     \<lparr>total_invested = Num (Py 0), total_current_hk = Num (Py 0),
      total_current_usa = Num (Py 0), total_current = Num (Py 0),
      performance_hk = Num (Py 0), performance_usa = Num (Py 0)\<rparr>"

text \<open>
  \<open>calculate_portfolio_metrics\<close>: \<open>except Exception\<close> shows the error and returns the
  default values.
\<close>

definition calculate_portfolio_metrics :: "globals \<Rightarrow> message list \<times> metrics" where
  "calculate_portfolio_metrics g =
     (case try_metrics g of
        (shown, Inr m) \<Rightarrow> (shown, m)
      | (shown, Inl e) \<Rightarrow> (shown @ [MetricsError e], zero_metrics))"

text \<open>
  \<open>v.sum() if isinstance(v, pd.Series) else v\<close>: the sum of the empty series is the
  numpy number 0.
\<close>

fun sum_if_series :: "pyval \<Rightarrow> num" where
  "sum_if_series (Num a) = a"
| "sum_if_series EmptySeries = Np (Fin 0)"

text \<open>The number the "Total Return" metric formats.\<close>

definition total_return :: "metrics \<Rightarrow> exn + num" where
  "total_return m =
     and_then (truediv (sum_if_series (total_current m)) (sum_if_series (total_invested m)))
       (\<lambda>q. Inr (percent q))"

section \<open>The pages with their fetches, and the figures the properties speak of\<close>

text \<open>
  \<open>main\<close> of the Hong Kong page from its two fetches: the prices go through
  \<open>download_data\<close>, and the rate \<open>get_fx_rate\<close> returns is the one every row uses.
\<close>

definition hk_page ::
  "string list \<Rightarrow> (string \<rightharpoonup> real) \<Rightarrow> (string \<rightharpoonup> real) \<Rightarrow> dataframe option \<Rightarrow> fx_fetch
     \<Rightarrow> exn + report option" where
  "hk_page pf so pp fetched_prices fetched_fx =
     hk_main pf so pp (download_data fetched_prices) (hk_get_fx_rate fetched_fx)"

text \<open>The arithmetic mean of a list of finite numbers.\<close>

definition mean :: "real list \<Rightarrow> real" where
  "mean xs = sum_list xs / real (length xs)"

text \<open>The sum of a list of terms of a running total, from the left as the loop adds them.\<close>

definition val_sum :: "pyval list \<Rightarrow> pyval" where
  "val_sum vs = foldl val_add (Num (Py 0)) vs"

section \<open>Basic facts\<close>

lemma and_then_Inl [simp]: "and_then (Inl e) f = Inl e"
  by (simp add: and_then_def)

lemma and_then_Inr [simp]: "and_then (Inr x) f = f x"
  by (simp add: and_then_def)

lemma and_then_eq_Inr:
  "and_then m f = Inr y \<longleftrightarrow> (\<exists>x. m = Inr x \<and> f x = Inr y)"
  by (cases m) simp_all

lemma getitem_Some [simp]: "d k = Some v \<Longrightarrow> getitem d k = Inr v"
  by (simp add: getitem_def)

lemma getitem_None [simp]: "d k = None \<Longrightarrow> getitem d k = Inl (KeyError k)"
  by (simp add: getitem_def)

section \<open>Loops and sums\<close>

lemma collect_length: "collect body xs = Inr rs \<Longrightarrow> length rs = length xs"
  by (induction xs arbitrary: rs) (auto simp add: and_then_eq_Inr)

lemma collect_nonempty: "collect body xs = Inr rs \<Longrightarrow> rs = [] \<longleftrightarrow> xs = []"
  using collect_length [of body xs rs] by auto

lemma foldl_f64_add_Fin: "foldl f64_add (Fin a) (map Fin xs) = Fin (a + sum_list xs)"
  by (induction xs arbitrary: a) (simp_all add: add.assoc)

lemma series_sum_finite:
  assumes "map to_f64 vs = map Fin xs"
  shows "series_sum vs = Np (Fin (sum_list xs))"
proof -
  have "filter (\<lambda>x. x \<noteq> NaN) (map Fin xs) = map Fin xs"
    by (induction xs) simp_all
  with assms show ?thesis
    by (simp add: series_sum_def foldl_f64_add_Fin)
qed

lemma usa_main_report:
  assumes "usa_main pf so pp cp = Inr (Some r)"
  shows "collect (usa_row so pp cp) pf = Inr (report_rows r)"
    and "pf \<noteq> []"
    and "report_invested r = series_sum (map Invested_Value (report_rows r))"
    and "report_current r = series_sum (map Current_Value (report_rows r))"
    and "(if num_positive (report_invested r)
          then and_then (truediv (report_current r) (report_invested r)) (\<lambda>q. Inr (percent q))
          else Inr (Py 0)) = Inr (report_performance r)"
proof -
  from assms obtain rs where rs: "collect (usa_row so pp cp) pf = Inr rs"
    by (cases "collect (usa_row so pp cp) pf")
       (simp_all add: usa_main_def split: if_splits)
  from assms rs have ne: "rs \<noteq> []"
    by (auto simp add: usa_main_def column_def split: if_splits)
  let ?ti = "series_sum (map Invested_Value rs)" and ?tc = "series_sum (map Current_Value rs)"
  from assms rs ne obtain tp where
    tp: "(if num_positive ?ti
          then and_then (truediv ?tc ?ti) (\<lambda>q. Inr (percent q)) else Inr (Py 0)) = Inr tp"
    and r: "r = \<lparr>report_rows = rs, report_invested = ?ti, report_current = ?tc,
                 report_performance = tp\<rparr>"
    by (auto simp add: usa_main_def column_def Let_def and_then_eq_Inr split: if_splits)
  show "collect (usa_row so pp cp) pf = Inr (report_rows r)" using rs r by simp
  show "pf \<noteq> []" using collect_nonempty [OF rs] ne by simp
  show "report_invested r = series_sum (map Invested_Value (report_rows r))" using r by simp
  show "report_current r = series_sum (map Current_Value (report_rows r))" using r by simp
  show "(if num_positive (report_invested r)
          then and_then (truediv (report_current r) (report_invested r)) (\<lambda>q. Inr (percent q))
          else Inr (Py 0)) = Inr (report_performance r)"
    using r tp by (auto split: if_splits)
qed

lemma hk_main_report:
  assumes "hk_main pf so pp cp fx = Inr (Some r)"
  shows "collect (hk_row so pp cp fx) pf = Inr (report_rows r)"
    and "pf \<noteq> []"
    and "report_invested r = series_sum (map Invested_Value (report_rows r))"
    and "report_current r = series_sum (map Current_Value (report_rows r))"
    and "and_then (truediv (report_current r) (report_invested r)) (\<lambda>q. Inr (percent q))
           = Inr (report_performance r)"
proof -
  from assms obtain rs where rs: "collect (hk_row so pp cp fx) pf = Inr rs"
    by (cases "collect (hk_row so pp cp fx) pf")
       (simp_all add: hk_main_def split: if_splits)
  from assms rs have ne: "rs \<noteq> []"
    by (auto simp add: hk_main_def column_def split: if_splits)
  let ?ti = "series_sum (map Invested_Value rs)" and ?tc = "series_sum (map Current_Value rs)"
  from assms rs ne obtain q where
    q: "truediv ?tc ?ti = Inr q"
    and r: "r = \<lparr>report_rows = rs, report_invested = ?ti, report_current = ?tc,
                 report_performance = percent q\<rparr>"
    by (auto simp add: hk_main_def column_def Let_def and_then_eq_Inr split: if_splits)
  show "collect (hk_row so pp cp fx) pf = Inr (report_rows r)" using rs r by simp
  show "pf \<noteq> []" using collect_nonempty [OF rs] ne by simp
  show "report_invested r = series_sum (map Invested_Value (report_rows r))" using r by simp
  show "report_current r = series_sum (map Current_Value (report_rows r))" using r by simp
  show "and_then (truediv (report_current r) (report_invested r)) (\<lambda>q. Inr (percent q))
           = Inr (report_performance r)"
    using r q by simp
qed

lemma invested_sum_collect:
  "invested_sum val so pp ts acc =
     and_then (collect (invested_term val so pp) ts) (\<lambda>vs. Inr (foldl num_add acc vs))"
proof (induction ts arbitrary: acc)
  case Nil
  show ?case by simp
next
  case (Cons t ts)
  show ?case
    by (cases "invested_term val so pp t"; cases "collect (invested_term val so pp) ts")
       (simp_all add: Cons.IH)
qed

lemma current_value_loop_collect:
  "current_value_loop val so pp cp ts shown running = (shown', Inr total_value) \<Longrightarrow>
     \<exists>vs. collect (\<lambda>t. snd (loop_round val so pp cp t)) ts = Inr vs
          \<and> total_value = foldl val_add running vs"
proof (induction ts arbitrary: shown running)
  case Nil
  then show ?case by simp
next
  case (Cons t ts)
  obtain w res where round: "loop_round val so pp cp t = (w, res)"
    by (cases "loop_round val so pp cp t")
  show ?case
  proof (cases res)
    case (Inl e)
    with Cons.prems round show ?thesis by simp
  next
    case (Inr added)
    with Cons.prems round
    have "current_value_loop val so pp cp ts (shown @ w) (val_add running added)
            = (shown', Inr total_value)"
      by simp
    from Cons.IH [OF this] obtain vs where
      "collect (\<lambda>t. snd (loop_round val so pp cp t)) ts = Inr vs"
      "total_value = foldl val_add (val_add running added) vs"
      by blast
    with round Inr show ?thesis by simp
  qed
qed

lemma try_metrics_Inr:
  assumes "try_metrics g = (shown, Inr m)"
  shows "\<exists>ih ch iu cu.
           collect (invested_term (hk_value (fx_rate_hkd_to_usd g)) (shares_owned_hk g)
             (purchase_prices_hk g)) (portfolio_hk g) = Inr ih
         \<and> collect (\<lambda>t. snd (loop_round (hk_value (fx_rate_hkd_to_usd g)) (shares_owned_hk g)
             (purchase_prices_hk g) (current_prices_hk g) t)) (portfolio_hk g) = Inr ch
         \<and> collect (invested_term usa_value (shares_owned_usa g) (purchase_prices_usa g))
             (portfolio_usa g) = Inr iu
         \<and> collect (\<lambda>t. snd (loop_round usa_value (shares_owned_usa g)
             (purchase_prices_usa g) (current_prices_usa g) t)) (portfolio_usa g) = Inr cu
         \<and> total_invested m = Num (num_add (py_sum ih) (py_sum iu))
         \<and> total_current_hk m = val_sum ch
         \<and> total_current_usa m = val_sum cu
         \<and> total_current m = val_add (val_sum ch) (val_sum cu)
         \<and> guarded_performance (val_sum ch) (py_sum ih) = Inr (performance_hk m)
         \<and> guarded_performance (val_sum cu) (py_sum iu) = Inr (performance_usa m)"
proof -
  let ?hk = "hk_value (fx_rate_hkd_to_usd g)"
  from assms obtain ih where ih:
    "collect (invested_term ?hk (shares_owned_hk g) (purchase_prices_hk g)) (portfolio_hk g)
       = Inr ih"
    by (cases "collect (invested_term ?hk (shares_owned_hk g) (purchase_prices_hk g))
                 (portfolio_hk g)")
       (simp_all add: try_metrics_def invested_sum_collect)
  obtain s1 r1 where l1: "current_value_loop ?hk (shares_owned_hk g) (purchase_prices_hk g)
       (current_prices_hk g) (portfolio_hk g) [] (Num (Py 0)) = (s1, r1)"
    by (cases "current_value_loop ?hk (shares_owned_hk g) (purchase_prices_hk g)
       (current_prices_hk g) (portfolio_hk g) [] (Num (Py 0))")
  from assms ih l1 obtain thk where thk: "r1 = Inr thk"
    by (cases r1) (simp_all add: try_metrics_def invested_sum_collect)
  from assms ih l1 thk obtain iu where iu:
    "collect (invested_term usa_value (shares_owned_usa g) (purchase_prices_usa g))
       (portfolio_usa g) = Inr iu"
    by (cases "collect (invested_term usa_value (shares_owned_usa g) (purchase_prices_usa g))
                 (portfolio_usa g)")
       (simp_all add: try_metrics_def invested_sum_collect)
  obtain s2 r2 where l2: "current_value_loop usa_value (shares_owned_usa g)
       (purchase_prices_usa g) (current_prices_usa g) (portfolio_usa g) s1 (Num (Py 0))
         = (s2, r2)"
    by (cases "current_value_loop usa_value (shares_owned_usa g)
       (purchase_prices_usa g) (current_prices_usa g) (portfolio_usa g) s1 (Num (Py 0))")
  from assms ih l1 thk iu l2 obtain tusa where tusa: "r2 = Inr tusa"
    by (cases r2) (simp_all add: try_metrics_def invested_sum_collect)
  from current_value_loop_collect [OF l1 [unfolded thk]] obtain ch where ch:
    "collect (\<lambda>t. snd (loop_round ?hk (shares_owned_hk g)
             (purchase_prices_hk g) (current_prices_hk g) t)) (portfolio_hk g) = Inr ch"
    "thk = val_sum ch"
    by (auto simp add: val_sum_def)
  from current_value_loop_collect [OF l2 [unfolded tusa]] obtain cu where cu:
    "collect (\<lambda>t. snd (loop_round usa_value (shares_owned_usa g)
             (purchase_prices_usa g) (current_prices_usa g) t)) (portfolio_usa g) = Inr cu"
    "tusa = val_sum cu"
    by (auto simp add: val_sum_def)
  from assms ih l1 thk iu l2 tusa obtain ph where
    ph: "guarded_performance thk (py_sum ih) = Inr ph"
    by (cases "guarded_performance thk (py_sum ih)")
       (simp_all add: try_metrics_def invested_sum_collect py_sum_def)
  from assms ih l1 thk iu l2 tusa ph obtain pu where
    pu: "guarded_performance tusa (py_sum iu) = Inr pu"
    by (cases "guarded_performance tusa (py_sum iu)")
       (simp_all add: try_metrics_def invested_sum_collect py_sum_def)
  from assms ih l1 thk iu l2 tusa ph pu
  have m: "m = \<lparr>total_invested = Num (num_add (py_sum ih) (py_sum iu)),
                total_current_hk = thk, total_current_usa = tusa,
                total_current = val_add thk tusa,
                performance_hk = ph, performance_usa = pu\<rparr>"
    by (simp add: try_metrics_def invested_sum_collect py_sum_def)
  show ?thesis
    using ih ch(1) iu cu(1) m ch(2) cu(2) ph pu
    by (intro exI [of _ ih] exI [of _ ch] exI [of _ iu] exI [of _ cu]) simp
qed

section \<open>Aggregates\<close>

text \<open>
  C4. Whenever a page shows its figures, the aggregate invested value is the sum of the
  invested values of the rows, one row per ticker in the order of the ticker list, and
  the aggregate current value is the sum of their current values; the sum of a column
  leaves \<open>nan\<close> entries out, and is the plain sum when every entry is finite. On the
  overview page the invested total is the sum over both markets of the invested value of
  each ticker, each current total is the sum of the terms its loop adds for each ticker,
  and the current total is the sum of the two.
\<close>

theorem aggregates_are_sums_over_tickers:
  "(usa_main pf so pp cp = Inr (Some r) \<longrightarrow>
      collect (usa_row so pp cp) pf = Inr (report_rows r)
      \<and> report_invested r = series_sum (map Invested_Value (report_rows r))
      \<and> report_current r = series_sum (map Current_Value (report_rows r))
      \<and> (map to_f64 (map Invested_Value (report_rows r)) = map Fin iv \<longrightarrow>
           report_invested r = Np (Fin (sum_list iv)))
      \<and> (map to_f64 (map Current_Value (report_rows r)) = map Fin cv \<longrightarrow>
           report_current r = Np (Fin (sum_list cv))))
   \<and> (hk_main pf' so' pp' cp' fx = Inr (Some r') \<longrightarrow>
      collect (hk_row so' pp' cp' fx) pf' = Inr (report_rows r')
      \<and> report_invested r' = series_sum (map Invested_Value (report_rows r'))
      \<and> report_current r' = series_sum (map Current_Value (report_rows r'))
      \<and> (map to_f64 (map Invested_Value (report_rows r')) = map Fin iv' \<longrightarrow>
           report_invested r' = Np (Fin (sum_list iv')))
      \<and> (map to_f64 (map Current_Value (report_rows r')) = map Fin cv' \<longrightarrow>
           report_current r' = Np (Fin (sum_list cv'))))
   \<and> (try_metrics g = (shown, Inr m) \<longrightarrow>
      (\<exists>ih ch iu cu.
           collect (invested_term (hk_value (fx_rate_hkd_to_usd g)) (shares_owned_hk g)
             (purchase_prices_hk g)) (portfolio_hk g) = Inr ih
         \<and> collect (\<lambda>t. snd (loop_round (hk_value (fx_rate_hkd_to_usd g)) (shares_owned_hk g)
             (purchase_prices_hk g) (current_prices_hk g) t)) (portfolio_hk g) = Inr ch
         \<and> collect (invested_term usa_value (shares_owned_usa g) (purchase_prices_usa g))
             (portfolio_usa g) = Inr iu
         \<and> collect (\<lambda>t. snd (loop_round usa_value (shares_owned_usa g)
             (purchase_prices_usa g) (current_prices_usa g) t)) (portfolio_usa g) = Inr cu
         \<and> total_invested m = Num (num_add (py_sum ih) (py_sum iu))
         \<and> total_current_hk m = val_sum ch
         \<and> total_current_usa m = val_sum cu
         \<and> total_current m = val_add (val_sum ch) (val_sum cu)))"
proof (intro conjI impI)
  assume ret: "usa_main pf so pp cp = Inr (Some r)"
  from usa_main_report(1,3,4) [OF ret]
  show "collect (usa_row so pp cp) pf = Inr (report_rows r)"
    and inv: "report_invested r = series_sum (map Invested_Value (report_rows r))"
    and cur: "report_current r = series_sum (map Current_Value (report_rows r))"
    by simp_all
  show "report_invested r = Np (Fin (sum_list iv))"
    if "map to_f64 (map Invested_Value (report_rows r)) = map Fin iv"
    using inv series_sum_finite [OF that] by simp
  show "report_current r = Np (Fin (sum_list cv))"
    if "map to_f64 (map Current_Value (report_rows r)) = map Fin cv"
    using cur series_sum_finite [OF that] by simp
next
  assume ret: "hk_main pf' so' pp' cp' fx = Inr (Some r')"
  from hk_main_report(1,3,4) [OF ret]
  show "collect (hk_row so' pp' cp' fx) pf' = Inr (report_rows r')"
    and inv: "report_invested r' = series_sum (map Invested_Value (report_rows r'))"
    and cur: "report_current r' = series_sum (map Current_Value (report_rows r'))"
    by simp_all
  show "report_invested r' = Np (Fin (sum_list iv'))"
    if "map to_f64 (map Invested_Value (report_rows r')) = map Fin iv'"
    using inv series_sum_finite [OF that] by simp
  show "report_current r' = Np (Fin (sum_list cv'))"
    if "map to_f64 (map Current_Value (report_rows r')) = map Fin cv'"
    using cur series_sum_finite [OF that] by simp
next
  assume "try_metrics g = (shown, Inr m)"
  from try_metrics_Inr [OF this] obtain ih ch iu cu where
    "collect (invested_term (hk_value (fx_rate_hkd_to_usd g)) (shares_owned_hk g)
             (purchase_prices_hk g)) (portfolio_hk g) = Inr ih"
    "collect (\<lambda>t. snd (loop_round (hk_value (fx_rate_hkd_to_usd g)) (shares_owned_hk g)
             (purchase_prices_hk g) (current_prices_hk g) t)) (portfolio_hk g) = Inr ch"
    "collect (invested_term usa_value (shares_owned_usa g) (purchase_prices_usa g))
             (portfolio_usa g) = Inr iu"
    "collect (\<lambda>t. snd (loop_round usa_value (shares_owned_usa g)
             (purchase_prices_usa g) (current_prices_usa g) t)) (portfolio_usa g) = Inr cu"
    "total_invested m = Num (num_add (py_sum ih) (py_sum iu))"
    "total_current_hk m = val_sum ch"
    "total_current_usa m = val_sum cu"
    "total_current m = val_add (val_sum ch) (val_sum cu)"
    by blast
  then show "\<exists>ih ch iu cu.
           collect (invested_term (hk_value (fx_rate_hkd_to_usd g)) (shares_owned_hk g)
             (purchase_prices_hk g)) (portfolio_hk g) = Inr ih
         \<and> collect (\<lambda>t. snd (loop_round (hk_value (fx_rate_hkd_to_usd g)) (shares_owned_hk g)
             (purchase_prices_hk g) (current_prices_hk g) t)) (portfolio_hk g) = Inr ch
         \<and> collect (invested_term usa_value (shares_owned_usa g) (purchase_prices_usa g))
             (portfolio_usa g) = Inr iu
         \<and> collect (\<lambda>t. snd (loop_round usa_value (shares_owned_usa g)
             (purchase_prices_usa g) (current_prices_usa g) t)) (portfolio_usa g) = Inr cu
         \<and> total_invested m = Num (num_add (py_sum ih) (py_sum iu))
         \<and> total_current_hk m = val_sum ch
         \<and> total_current_usa m = val_sum cu
         \<and> total_current m = val_add (val_sum ch) (val_sum cu)"
    by (intro exI [of _ ih] exI [of _ ch] exI [of _ iu] exI [of _ cu]) simp
qed

text \<open>
  Two USA tickers, two Hong Kong tickers at the rate 1/8, and on the overview page a USA
  ticker without a price, which enters the current total at its invested value.
\<close>

theorem aggregates_are_sums_over_tickers_witness:
  "usa_main [''VOO'', ''QQQ''] [''VOO'' \<mapsto> 2, ''QQQ'' \<mapsto> 1] [''VOO'' \<mapsto> 400, ''QQQ'' \<mapsto> 400]
     [(''VOO'', [Fin 500]), (''QQQ'', [Fin 300])] =
     Inr (Some \<lparr>report_rows =
                   [\<lparr>Ticker = ''VOO'', Shares_Owned = 2, Purchase_Price = Py 400,
                     Current_Price = Np (Fin 500), Invested_Value = Py 800,
                     Current_Value = Np (Fin 1000), Performance = Np (Fin 25)\<rparr>,
                    \<lparr>Ticker = ''QQQ'', Shares_Owned = 1, Purchase_Price = Py 400,
                     Current_Price = Np (Fin 300), Invested_Value = Py 400,
                     Current_Value = Np (Fin 300), Performance = Np (Fin (- 25))\<rparr>],
                 report_invested = Np (Fin 1200), report_current = Np (Fin 1300),
                 report_performance = Np (Fin (25 / 3))\<rparr>)
   \<and> hk_main [''1211.HK'', ''0700.HK''] [''1211.HK'' \<mapsto> 2, ''0700.HK'' \<mapsto> 1]
       [''1211.HK'' \<mapsto> 100, ''0700.HK'' \<mapsto> 200]
       [(''1211.HK'', [Fin 150]), (''0700.HK'', [Fin 250])] (Py (1 / 8)) =
     Inr (Some \<lparr>report_rows =
                   [\<lparr>Ticker = ''1211.HK'', Shares_Owned = 2, Purchase_Price = Py (25 / 2),
                     Current_Price = Np (Fin (75 / 4)), Invested_Value = Py 25,
                     Current_Value = Np (Fin (75 / 2)), Performance = Np (Fin 50)\<rparr>,
                    \<lparr>Ticker = ''0700.HK'', Shares_Owned = 1, Purchase_Price = Py 25,
                     Current_Price = Np (Fin (125 / 4)), Invested_Value = Py 25,
                     Current_Value = Np (Fin (125 / 4)), Performance = Np (Fin 25)\<rparr>],
                 report_invested = Np (Fin 50), report_current = Np (Fin (275 / 4)),
                 report_performance = Np (Fin (75 / 2))\<rparr>)
   \<and> try_metrics
     \<lparr>portfolio_hk = [''1211.HK''], portfolio_usa = [''VOO'', ''QQQ''],
      shares_owned_hk = [''1211.HK'' \<mapsto> 2],
      shares_owned_usa = [''VOO'' \<mapsto> 2, ''QQQ'' \<mapsto> 1],
      purchase_prices_hk = [''1211.HK'' \<mapsto> 100],
      purchase_prices_usa = [''VOO'' \<mapsto> 400, ''QQQ'' \<mapsto> 400],
      current_prices_hk = [(''1211.HK'', [Fin 150])],
      current_prices_usa = [(''VOO'', [Fin 500])],
      fx_rate_hkd_to_usd = Py (1 / 8)\<rparr> =
     ([PriceWarning ''QQQ''],
      Inr \<lparr>total_invested = Num (Py 1225), total_current_hk = Num (Np (Fin (75 / 2))),
           total_current_usa = Num (Np (Fin 1400)), total_current = Num (Np (Fin (2875 / 2))),
           performance_hk = Num (Np (Fin 50)), performance_usa = Num (Np (Fin (50 / 3)))\<rparr>)"
proof -
  let ?usa = "\<lparr>report_rows =
                   [\<lparr>Ticker = ''VOO'', Shares_Owned = 2, Purchase_Price = Py 400,
                     Current_Price = Np (Fin 500), Invested_Value = Py 800,
                     Current_Value = Np (Fin 1000), Performance = Np (Fin 25)\<rparr>,
                    \<lparr>Ticker = ''QQQ'', Shares_Owned = 1, Purchase_Price = Py 400,
                     Current_Price = Np (Fin 300), Invested_Value = Py 400,
                     Current_Value = Np (Fin 300), Performance = Np (Fin (- 25))\<rparr>],
                 report_invested = Np (Fin 1200), report_current = Np (Fin 1300),
                 report_performance = Np (Fin (25 / 3))\<rparr>"
  let ?hk = "\<lparr>report_rows =
                   [\<lparr>Ticker = ''1211.HK'', Shares_Owned = 2, Purchase_Price = Py (25 / 2),
                     Current_Price = Np (Fin (75 / 4)), Invested_Value = Py 25,
                     Current_Value = Np (Fin (75 / 2)), Performance = Np (Fin 50)\<rparr>,
                    \<lparr>Ticker = ''0700.HK'', Shares_Owned = 1, Purchase_Price = Py 25,
                     Current_Price = Np (Fin (125 / 4)), Invested_Value = Py 25,
                     Current_Value = Np (Fin (125 / 4)), Performance = Np (Fin 25)\<rparr>],
                 report_invested = Np (Fin 50), report_current = Np (Fin (275 / 4)),
                 report_performance = Np (Fin (75 / 2))\<rparr>"
  let ?g = "\<lparr>portfolio_hk = [''1211.HK''], portfolio_usa = [''VOO'', ''QQQ''],
      shares_owned_hk = [''1211.HK'' \<mapsto> 2],
      shares_owned_usa = [''VOO'' \<mapsto> 2, ''QQQ'' \<mapsto> 1],
      purchase_prices_hk = [''1211.HK'' \<mapsto> 100],
      purchase_prices_usa = [''VOO'' \<mapsto> 400, ''QQQ'' \<mapsto> 400],
      current_prices_hk = [(''1211.HK'', [Fin 150])],
      current_prices_usa = [(''VOO'', [Fin 500])],
      fx_rate_hkd_to_usd = Py (1 / 8)\<rparr>"
  let ?m = "\<lparr>total_invested = Num (Py 1225), total_current_hk = Num (Np (Fin (75 / 2))),
           total_current_usa = Num (Np (Fin 1400)), total_current = Num (Np (Fin (2875 / 2))),
           performance_hk = Num (Np (Fin 50)), performance_usa = Num (Np (Fin (50 / 3)))\<rparr>"
  have usa: "usa_main [''VOO'', ''QQQ''] [''VOO'' \<mapsto> 2, ''QQQ'' \<mapsto> 1]
      [''VOO'' \<mapsto> 400, ''QQQ'' \<mapsto> 400] [(''VOO'', [Fin 500]), (''QQQ'', [Fin 300])]
        = Inr (Some ?usa)"
    by (simp add: usa_main_def usa_row_def df_empty_def df_getitem_def df_contains_def
        getitem_def iloc_first_def column_def Let_def series_sum_def num_positive_def
        percent_def f64_sub_def)
  have hk: "hk_main [''1211.HK'', ''0700.HK''] [''1211.HK'' \<mapsto> 2, ''0700.HK'' \<mapsto> 1]
       [''1211.HK'' \<mapsto> 100, ''0700.HK'' \<mapsto> 200]
       [(''1211.HK'', [Fin 150]), (''0700.HK'', [Fin 250])] (Py (1 / 8)) = Inr (Some ?hk)"
    by (simp add: hk_main_def hk_row_def df_empty_def df_getitem_def getitem_def
        iloc_first_def column_def Let_def series_sum_def percent_def f64_sub_def)
  have overview: "try_metrics ?g = ([PriceWarning ''QQQ''], Inr ?m)"
    by (simp add: try_metrics_def invested_term_def loop_round_def try_block_def
        getitem_def df_getitem_def hk_value_def usa_value_def guarded_performance_def
        num_is_zero_def percent_def f64_sub_def)
  show ?thesis
    using aggregates_are_sums_over_tickers [where pf = "[''VOO'', ''QQQ'']"
        and so = "[''VOO'' \<mapsto> 2, ''QQQ'' \<mapsto> 1]" and pp = "[''VOO'' \<mapsto> 400, ''QQQ'' \<mapsto> 400]"
        and cp = "[(''VOO'', [Fin 500]), (''QQQ'', [Fin 300])]" and r = ?usa
        and iv = "[800, 400]" and cv = "[1000, 300]"
        and pf' = "[''1211.HK'', ''0700.HK'']"
        and so' = "[''1211.HK'' \<mapsto> 2, ''0700.HK'' \<mapsto> 1]"
        and pp' = "[''1211.HK'' \<mapsto> 100, ''0700.HK'' \<mapsto> 200]"
        and cp' = "[(''1211.HK'', [Fin 150]), (''0700.HK'', [Fin 250])]"
        and fx = "Py (1 / 8)" and r' = ?hk and iv' = "[25, 25]" and cv' = "[75 / 2, 125 / 4]"
        and g = ?g and shown = "[PriceWarning ''QQQ'']" and m = ?m]
      usa hk overview
    by simp
qed

text \<open>
  C3. Whenever a page shows its figures for a ticker list whose rows have finite values
  and a positive sum of invested values, the list is not empty, the rows are those of
  its tickers in order, the aggregates are the sums over these rows, and the aggregate
  performance is (sum of the current values / sum of the invested values - 1) * 100. It
  is not the mean of the performances of the rows: for 1 share bought at 100 and quoted
  at 200 and 3 shares bought and quoted at 100, the aggregate performance is 25 and the
  mean is 50.
\<close>

theorem aggregate_performance_is_ratio_of_sums:
  "(usa_main pf so pp cp = Inr (Some r) \<longrightarrow>
      map to_f64 (map Invested_Value (report_rows r)) = map Fin iv \<longrightarrow>
      map to_f64 (map Current_Value (report_rows r)) = map Fin cv \<longrightarrow>
      0 < sum_list iv \<longrightarrow>
      pf \<noteq> []
      \<and> collect (usa_row so pp cp) pf = Inr (report_rows r)
      \<and> report_invested r = Np (Fin (sum_list iv))
      \<and> report_current r = Np (Fin (sum_list cv))
      \<and> report_performance r = Np (Fin ((sum_list cv / sum_list iv - 1) * 100)))
   \<and> (hk_main pf' so' pp' cp' fx = Inr (Some r') \<longrightarrow>
      map to_f64 (map Invested_Value (report_rows r')) = map Fin iv' \<longrightarrow>
      map to_f64 (map Current_Value (report_rows r')) = map Fin cv' \<longrightarrow>
      0 < sum_list iv' \<longrightarrow>
      pf' \<noteq> []
      \<and> collect (hk_row so' pp' cp' fx) pf' = Inr (report_rows r')
      \<and> report_invested r' = Np (Fin (sum_list iv'))
      \<and> report_current r' = Np (Fin (sum_list cv'))
      \<and> report_performance r' = Np (Fin ((sum_list cv' / sum_list iv' - 1) * 100)))
   \<and> (\<exists>r0. usa_main [''A'', ''B''] [''A'' \<mapsto> 1, ''B'' \<mapsto> 3] [''A'' \<mapsto> 100, ''B'' \<mapsto> 100]
               [(''A'', [Fin 200]), (''B'', [Fin 100])] = Inr (Some r0)
            \<and> map to_f64 (map Performance (report_rows r0)) = map Fin [100, 0]
            \<and> mean [100, 0] = 50
            \<and> report_performance r0 = Np (Fin 25))"
proof (intro conjI impI)
  assume ret: "usa_main pf so pp cp = Inr (Some r)"
    and inv: "map to_f64 (map Invested_Value (report_rows r)) = map Fin iv"
    and cur: "map to_f64 (map Current_Value (report_rows r)) = map Fin cv"
    and pos: "0 < sum_list iv"
  show "pf \<noteq> []" using usa_main_report(2) [OF ret] .
  show "collect (usa_row so pp cp) pf = Inr (report_rows r)"
    using usa_main_report(1) [OF ret] .
  show ti: "report_invested r = Np (Fin (sum_list iv))"
    using usa_main_report(3) [OF ret] series_sum_finite [OF inv] by simp
  show tc: "report_current r = Np (Fin (sum_list cv))"
    using usa_main_report(4) [OF ret] series_sum_finite [OF cur] by simp
  show "report_performance r = Np (Fin ((sum_list cv / sum_list iv - 1) * 100))"
    using usa_main_report(5) [OF ret] ti tc pos
    by (simp add: num_positive_def percent_def f64_sub_def)
next
  assume ret: "hk_main pf' so' pp' cp' fx = Inr (Some r')"
    and inv: "map to_f64 (map Invested_Value (report_rows r')) = map Fin iv'"
    and cur: "map to_f64 (map Current_Value (report_rows r')) = map Fin cv'"
    and pos: "0 < sum_list iv'"
  show "pf' \<noteq> []" using hk_main_report(2) [OF ret] .
  show "collect (hk_row so' pp' cp' fx) pf' = Inr (report_rows r')"
    using hk_main_report(1) [OF ret] .
  show ti: "report_invested r' = Np (Fin (sum_list iv'))"
    using hk_main_report(3) [OF ret] series_sum_finite [OF inv] by simp
  show tc: "report_current r' = Np (Fin (sum_list cv'))"
    using hk_main_report(4) [OF ret] series_sum_finite [OF cur] by simp
  show "report_performance r' = Np (Fin ((sum_list cv' / sum_list iv' - 1) * 100))"
    using hk_main_report(5) [OF ret] ti tc pos
    by (auto simp add: percent_def f64_sub_def)
next
  let ?r0 = "\<lparr>report_rows =
                   [\<lparr>Ticker = ''A'', Shares_Owned = 1, Purchase_Price = Py 100,
                     Current_Price = Np (Fin 200), Invested_Value = Py 100,
                     Current_Value = Np (Fin 200), Performance = Np (Fin 100)\<rparr>,
                    \<lparr>Ticker = ''B'', Shares_Owned = 3, Purchase_Price = Py 100,
                     Current_Price = Np (Fin 100), Invested_Value = Py 300,
                     Current_Value = Np (Fin 300), Performance = Np (Fin 0)\<rparr>],
                 report_invested = Np (Fin 400), report_current = Np (Fin 500),
                 report_performance = Np (Fin 25)\<rparr>"
  have "usa_main [''A'', ''B''] [''A'' \<mapsto> 1, ''B'' \<mapsto> 3] [''A'' \<mapsto> 100, ''B'' \<mapsto> 100]
               [(''A'', [Fin 200]), (''B'', [Fin 100])] = Inr (Some ?r0)"
    by (simp add: usa_main_def usa_row_def df_empty_def df_getitem_def df_contains_def
        getitem_def iloc_first_def column_def Let_def series_sum_def num_positive_def
        percent_def f64_sub_def)
  moreover have "map to_f64 (map Performance (report_rows ?r0)) = map Fin [100, 0]" by simp
  moreover have "mean [100, 0] = 50" by (simp add: mean_def)
  moreover have "report_performance ?r0 = Np (Fin 25)" by simp
  ultimately show "\<exists>r0. usa_main [''A'', ''B''] [''A'' \<mapsto> 1, ''B'' \<mapsto> 3]
               [''A'' \<mapsto> 100, ''B'' \<mapsto> 100] [(''A'', [Fin 200]), (''B'', [Fin 100])]
                 = Inr (Some r0)
            \<and> map to_f64 (map Performance (report_rows r0)) = map Fin [100, 0]
            \<and> mean [100, 0] = 50
            \<and> report_performance r0 = Np (Fin 25)"
    by blast
qed

text \<open>
  The two positions above on the USA page, and two positions on the Hong Kong page at
  the rate 1/8.
\<close>

theorem aggregate_performance_is_ratio_of_sums_witness:
  "usa_main [''A'', ''B''] [''A'' \<mapsto> 1, ''B'' \<mapsto> 3] [''A'' \<mapsto> 100, ''B'' \<mapsto> 100]
       [(''A'', [Fin 200]), (''B'', [Fin 100])] =
     Inr (Some \<lparr>report_rows =
                   [\<lparr>Ticker = ''A'', Shares_Owned = 1, Purchase_Price = Py 100,
                     Current_Price = Np (Fin 200), Invested_Value = Py 100,
                     Current_Value = Np (Fin 200), Performance = Np (Fin 100)\<rparr>,
                    \<lparr>Ticker = ''B'', Shares_Owned = 3, Purchase_Price = Py 100,
                     Current_Price = Np (Fin 100), Invested_Value = Py 300,
                     Current_Value = Np (Fin 300), Performance = Np (Fin 0)\<rparr>],
                 report_invested = Np (Fin 400), report_current = Np (Fin 500),
                 report_performance = Np (Fin 25)\<rparr>)
   \<and> ((200 + 300) / (100 + 300) - 1) * 100 = (25 :: real)
   \<and> hk_main [''1211.HK'', ''0700.HK''] [''1211.HK'' \<mapsto> 1, ''0700.HK'' \<mapsto> 3]
       [''1211.HK'' \<mapsto> 100, ''0700.HK'' \<mapsto> 100]
       [(''1211.HK'', [Fin 200]), (''0700.HK'', [Fin 100])] (Py (1 / 8)) =
     Inr (Some \<lparr>report_rows =
                   [\<lparr>Ticker = ''1211.HK'', Shares_Owned = 1, Purchase_Price = Py (25 / 2),
                     Current_Price = Np (Fin 25), Invested_Value = Py (25 / 2),
                     Current_Value = Np (Fin 25), Performance = Np (Fin 100)\<rparr>,
                    \<lparr>Ticker = ''0700.HK'', Shares_Owned = 3, Purchase_Price = Py (25 / 2),
                     Current_Price = Np (Fin (25 / 2)), Invested_Value = Py (75 / 2),
                     Current_Value = Np (Fin (75 / 2)), Performance = Np (Fin 0)\<rparr>],
                 report_invested = Np (Fin 50), report_current = Np (Fin (125 / 2)),
                 report_performance = Np (Fin 25)\<rparr>)
   \<and> ((25 + 75 / 2) / (25 / 2 + 75 / 2) - 1) * 100 = (25 :: real)"
proof -
  let ?usa = "\<lparr>report_rows =
                   [\<lparr>Ticker = ''A'', Shares_Owned = 1, Purchase_Price = Py 100,
                     Current_Price = Np (Fin 200), Invested_Value = Py 100,
                     Current_Value = Np (Fin 200), Performance = Np (Fin 100)\<rparr>,
                    \<lparr>Ticker = ''B'', Shares_Owned = 3, Purchase_Price = Py 100,
                     Current_Price = Np (Fin 100), Invested_Value = Py 300,
                     Current_Value = Np (Fin 300), Performance = Np (Fin 0)\<rparr>],
                 report_invested = Np (Fin 400), report_current = Np (Fin 500),
                 report_performance = Np (Fin 25)\<rparr>"
  let ?hk = "\<lparr>report_rows =
                   [\<lparr>Ticker = ''1211.HK'', Shares_Owned = 1, Purchase_Price = Py (25 / 2),
                     Current_Price = Np (Fin 25), Invested_Value = Py (25 / 2),
                     Current_Value = Np (Fin 25), Performance = Np (Fin 100)\<rparr>,
                    \<lparr>Ticker = ''0700.HK'', Shares_Owned = 3, Purchase_Price = Py (25 / 2),
                     Current_Price = Np (Fin (25 / 2)), Invested_Value = Py (75 / 2),
                     Current_Value = Np (Fin (75 / 2)), Performance = Np (Fin 0)\<rparr>],
                 report_invested = Np (Fin 50), report_current = Np (Fin (125 / 2)),
                 report_performance = Np (Fin 25)\<rparr>"
  have usa: "usa_main [''A'', ''B''] [''A'' \<mapsto> 1, ''B'' \<mapsto> 3] [''A'' \<mapsto> 100, ''B'' \<mapsto> 100]
               [(''A'', [Fin 200]), (''B'', [Fin 100])] = Inr (Some ?usa)"
    by (simp add: usa_main_def usa_row_def df_empty_def df_getitem_def df_contains_def
        getitem_def iloc_first_def column_def Let_def series_sum_def num_positive_def
        percent_def f64_sub_def)
  have hk: "hk_main [''1211.HK'', ''0700.HK''] [''1211.HK'' \<mapsto> 1, ''0700.HK'' \<mapsto> 3]
       [''1211.HK'' \<mapsto> 100, ''0700.HK'' \<mapsto> 100]
       [(''1211.HK'', [Fin 200]), (''0700.HK'', [Fin 100])] (Py (1 / 8)) = Inr (Some ?hk)"
    by (simp add: hk_main_def hk_row_def df_empty_def df_getitem_def getitem_def
        iloc_first_def column_def Let_def series_sum_def percent_def f64_sub_def)
  show ?thesis
    using aggregate_performance_is_ratio_of_sums [where pf = "[''A'', ''B'']"
        and so = "[''A'' \<mapsto> 1, ''B'' \<mapsto> 3]" and pp = "[''A'' \<mapsto> 100, ''B'' \<mapsto> 100]"
        and cp = "[(''A'', [Fin 200]), (''B'', [Fin 100])]" and r = ?usa
        and iv = "[100, 300]" and cv = "[200, 300]"
        and pf' = "[''1211.HK'', ''0700.HK'']"
        and so' = "[''1211.HK'' \<mapsto> 1, ''0700.HK'' \<mapsto> 3]"
        and pp' = "[''1211.HK'' \<mapsto> 100, ''0700.HK'' \<mapsto> 100]"
        and cp' = "[(''1211.HK'', [Fin 200]), (''0700.HK'', [Fin 100])]"
        and fx = "Py (1 / 8)" and r' = ?hk and iv' = "[25 / 2, 75 / 2]" and cv' = "[25, 75 / 2]"]
      usa hk
    by simp
qed

section \<open>The Total Return metric\<close>

text \<open>
  C10. The number of the "Total Return" metric is (total_current / total_invested - 1)
  * 100 of the returned metrics, divided without a guard. For finite totals it is that
  number when total_invested is not 0; when total_invested is 0 the metric has no value:
  the division raises or gives an infinity or \<open>nan\<close>, never a finite number. The default
  metrics returned after an exception have total_invested 0, and there the division
  raises.
\<close>

theorem total_return_not_guarded:
  "(to_f64 (sum_if_series (total_current m)) = Fin c \<longrightarrow>
    to_f64 (sum_if_series (total_invested m)) = Fin i \<longrightarrow>
      (i \<noteq> 0 \<longrightarrow> map_sum id to_f64 (total_return m) = Inr (Fin ((c / i - 1) * 100)))
      \<and> (i = 0 \<longrightarrow> (\<forall>x. map_sum id to_f64 (total_return m) \<noteq> Inr (Fin x))))
   \<and> total_return zero_metrics = Inl ZeroDivisionError
   \<and> (snd (try_metrics g) = Inl e \<longrightarrow>
        total_return (snd (calculate_portfolio_metrics g)) = Inl ZeroDivisionError)"
proof (intro conjI impI)
  assume c: "to_f64 (sum_if_series (total_current m)) = Fin c"
    and i: "to_f64 (sum_if_series (total_invested m)) = Fin i"
  show "map_sum id to_f64 (total_return m) = Inr (Fin ((c / i - 1) * 100))" if "i \<noteq> 0"
    using c i that
    by (cases "sum_if_series (total_current m)"; cases "sum_if_series (total_invested m)")
       (simp_all add: total_return_def percent_def f64_sub_def)
  show "\<forall>x. map_sum id to_f64 (total_return m) \<noteq> Inr (Fin x)" if "i = 0"
    using c i that
    by (cases "sum_if_series (total_current m)"; cases "sum_if_series (total_invested m)")
       (simp_all add: total_return_def percent_def f64_sub_def)
next
  show "total_return zero_metrics = Inl ZeroDivisionError"
    by (simp add: total_return_def zero_metrics_def)
next
  assume "snd (try_metrics g) = Inl e"
  then show "total_return (snd (calculate_portfolio_metrics g)) = Inl ZeroDivisionError"
    by (cases "try_metrics g")
       (simp add: total_return_def zero_metrics_def calculate_portfolio_metrics_def)
qed

text \<open>
  An evaluation whose aggregation raises, metrics with finite non-zero totals, and
  metrics whose invested total is the numpy number 0.
\<close>

theorem total_return_not_guarded_witness:
  "snd (try_metrics
     \<lparr>portfolio_hk = [], portfolio_usa = [''VOO''],
      shares_owned_hk = Map.empty, shares_owned_usa = Map.empty,
      purchase_prices_hk = Map.empty, purchase_prices_usa = [''VOO'' \<mapsto> 400],
      current_prices_hk = [], current_prices_usa = [(''VOO'', [Fin 500])],
      fx_rate_hkd_to_usd = Py (1 / 8)\<rparr>) = Inl (KeyError ''VOO'')
   \<and> total_return (snd (calculate_portfolio_metrics
     \<lparr>portfolio_hk = [], portfolio_usa = [''VOO''],
      shares_owned_hk = Map.empty, shares_owned_usa = Map.empty,
      purchase_prices_hk = Map.empty, purchase_prices_usa = [''VOO'' \<mapsto> 400],
      current_prices_hk = [], current_prices_usa = [(''VOO'', [Fin 500])],
      fx_rate_hkd_to_usd = Py (1 / 8)\<rparr>)) = Inl ZeroDivisionError
   \<and> map_sum id to_f64 (total_return
     \<lparr>total_invested = Num (Py 200), total_current_hk = Num (Np (Fin 100)),
      total_current_usa = Num (Np (Fin 200)), total_current = Num (Np (Fin 300)),
      performance_hk = Num (Py 0), performance_usa = Num (Np (Fin 100))\<rparr>) = Inr (Fin 50)
   \<and> total_return
     \<lparr>total_invested = Num (Np (Fin 0)), total_current_hk = Num (Np (Fin 100)),
      total_current_usa = Num (Np (Fin 200)), total_current = Num (Np (Fin 300)),
      performance_hk = Num (Py 0), performance_usa = Num (Py 0)\<rparr> = Inr (Np PosInf)"
proof -
  let ?g = "\<lparr>portfolio_hk = [], portfolio_usa = [''VOO''],
      shares_owned_hk = Map.empty, shares_owned_usa = Map.empty,
      purchase_prices_hk = Map.empty, purchase_prices_usa = [''VOO'' \<mapsto> 400],
      current_prices_hk = [], current_prices_usa = [(''VOO'', [Fin 500])],
      fx_rate_hkd_to_usd = Py (1 / 8)\<rparr>"
  let ?m = "\<lparr>total_invested = Num (Py 200), total_current_hk = Num (Np (Fin 100)),
      total_current_usa = Num (Np (Fin 200)), total_current = Num (Np (Fin 300)),
      performance_hk = Num (Py 0), performance_usa = Num (Np (Fin 100))\<rparr>"
  have raised: "snd (try_metrics ?g) = Inl (KeyError ''VOO'')"
    by (simp add: try_metrics_def invested_term_def)
  have zero: "total_return
     \<lparr>total_invested = Num (Np (Fin 0)), total_current_hk = Num (Np (Fin 100)),
      total_current_usa = Num (Np (Fin 200)), total_current = Num (Np (Fin 300)),
      performance_hk = Num (Py 0), performance_usa = Num (Py 0)\<rparr> = Inr (Np PosInf)"
    by (simp add: total_return_def percent_def f64_sub_def)
  show ?thesis
    using total_return_not_guarded [of ?m 300 200 ?g "KeyError ''VOO''"] raised zero
    by simp
qed

section \<open>Division by zero on the pages\<close>

text \<open>
  C1. The division behind a performance figure is guarded on the USA page and in the two
  market performances of the overview page, and nowhere else. When the aggregation of
  the overview page raises, the default metrics have an invested total of 0: the two
  market performances are 0, but the division of "Total Return" by that total raises.
  On the Hong Kong page a rate of 0 (the quote is an infinity) makes every invested value
  0, and the page shows \<open>nan\<close> as the performance of each row and of the total, not 0.
\<close>

theorem zero_invested_value_is_divided_by:
  "calculate_portfolio_metrics
     \<lparr>portfolio_hk = [''1211.HK''], portfolio_usa = [''VOO''],
      shares_owned_hk = [''1211.HK'' \<mapsto> 6.91], shares_owned_usa = Map.empty,
      purchase_prices_hk = [''1211.HK'' \<mapsto> 226], purchase_prices_usa = [''VOO'' \<mapsto> 471.11],
      current_prices_hk = [(''1211.HK'', [Fin 250])], current_prices_usa = [(''VOO'', [Fin 500])],
      fx_rate_hkd_to_usd = Py 0.128\<rparr> =
     ([MetricsError (KeyError ''VOO'')],
      \<lparr>total_invested = Num (Py 0), total_current_hk = Num (Py 0),
       total_current_usa = Num (Py 0), total_current = Num (Py 0),
       performance_hk = Num (Py 0), performance_usa = Num (Py 0)\<rparr>)
   \<and> total_return
      \<lparr>total_invested = Num (Py 0), total_current_hk = Num (Py 0),
       total_current_usa = Num (Py 0), total_current = Num (Py 0),
       performance_hk = Num (Py 0), performance_usa = Num (Py 0)\<rparr> = Inl ZeroDivisionError
   \<and> hk_page [''1211.HK'', ''0700.HK''] [''1211.HK'' \<mapsto> 6.91, ''0700.HK'' \<mapsto> 0.98]
       [''1211.HK'' \<mapsto> 226, ''0700.HK'' \<mapsto> 399.60]
       (Some [(''1211.HK'', [Fin 250]), (''0700.HK'', [Fin 400])])
       (FetchFrame [(''Adj Close'', [PosInf])]) =
     Inr (Some \<lparr>report_rows =
                   [\<lparr>Ticker = ''1211.HK'', Shares_Owned = 6.91, Purchase_Price = Np (Fin 0),
                     Current_Price = Np (Fin 0), Invested_Value = Np (Fin 0),
                     Current_Value = Np (Fin 0), Performance = Np NaN\<rparr>,
                    \<lparr>Ticker = ''0700.HK'', Shares_Owned = 0.98, Purchase_Price = Np (Fin 0),
                     Current_Price = Np (Fin 0), Invested_Value = Np (Fin 0),
                     Current_Value = Np (Fin 0), Performance = Np NaN\<rparr>],
                 report_invested = Np (Fin 0), report_current = Np (Fin 0),
                 report_performance = Np NaN\<rparr>)"
  by (simp add: calculate_portfolio_metrics_def try_metrics_def zero_metrics_def
      getitem_def invested_term_def loop_round_def try_block_def hk_value_def usa_value_def
      total_return_def hk_page_def hk_get_fx_rate_def download_data_def
      hk_main_def hk_row_def df_empty_def df_getitem_def iloc_first_def column_def Let_def
      series_sum_def percent_def f64_sub_def)

section \<open>Values of a holding on the detail page\<close>

text \<open>
  C6. For a Hong Kong holding of 1 share bought at 400 and quoted at 500, the detail
  page shows the invested value 400 and the current value 500: shares times price in
  Hong Kong dollars, not converted to the reporting currency. The row of the Hong Kong
  page and the terms of the overview page for the same holding, at the rate 1/8, are
  converted: 50 and 62.5. The performance is 25 everywhere.
\<close>

theorem detail_page_values_in_native_currency:
  "detail_main [''0700.HK'' \<mapsto> [\<lparr>lot_shares = 1, lot_price = 400, lot_date = ''2022-04-01''\<rparr>]]
       ''0700.HK'' [(''Adj Close'', [Fin 500])] [(''Adj Close'', [Fin 450])] =
     Inr (Some \<lparr>stock_data =
                   [\<lparr>Purchase_Date = ''2022-04-01'', Lot_Shares = 1,
                     Lot_Purchase_Price = 400, Lot_Current_Price = Np (Fin 500),
                     Lot_Invested_Value = Py 400, Lot_Current_Value = Np (Fin 500),
                     Lot_Performance = Np (Fin 25)\<rparr>],
                 detail_total_shares = Py 1, detail_total_invested = Py 400,
                 detail_current_value = Np (Fin 500), detail_performance = Np (Fin 25)\<rparr>)
   \<and> hk_row [''0700.HK'' \<mapsto> 1] [''0700.HK'' \<mapsto> 400] [(''0700.HK'', [Fin 500])]
       (Py (1 / 8)) ''0700.HK'' =
     Inr \<lparr>Ticker = ''0700.HK'', Shares_Owned = 1, Purchase_Price = Py 50,
          Current_Price = Np (Fin (125 / 2)), Invested_Value = Py 50,
          Current_Value = Np (Fin (125 / 2)), Performance = Np (Fin 25)\<rparr>
   \<and> invested_term (hk_value (Py (1 / 8))) [''0700.HK'' \<mapsto> 1] [''0700.HK'' \<mapsto> 400]
       ''0700.HK'' = Inr (Py 50)
   \<and> try_block (hk_value (Py (1 / 8))) [''0700.HK'' \<mapsto> 1] [(''0700.HK'', [Fin 500])]
       ''0700.HK'' = Inr (Num (Np (Fin (125 / 2))))"
  by (simp add: detail_main_def detail_row_def hk_row_def df_empty_def getitem_def
      df_getitem_def iloc_first_def iloc_last_def Let_def py_sum_def percent_def f64_sub_def
      invested_term_def try_block_def hk_value_def)

section \<open>A ticker without a current price\<close>

text \<open>
  C2. When the price frame has no column for a ticker, the USA page takes 0 as its
  current price: the ticker is reported at a performance of -100, not 0, and no warning
  is shown. The Hong Kong page raises on the same frame. Only the loop of the overview
  page warns and adds the invested value in place of the current one.
\<close>

theorem usa_page_missing_price_counts_as_zero:
  "usa_main [''BABA'', ''ACN''] [''BABA'' \<mapsto> 1, ''ACN'' \<mapsto> 2]
     [''BABA'' \<mapsto> 100, ''ACN'' \<mapsto> 100] [(''ACN'', [Fin 150])] =
     Inr (Some \<lparr>report_rows =
                   [\<lparr>Ticker = ''BABA'', Shares_Owned = 1, Purchase_Price = Py 100,
                     Current_Price = Py 0, Invested_Value = Py 100, Current_Value = Py 0,
                     Performance = Py (- 100)\<rparr>,
                    \<lparr>Ticker = ''ACN'', Shares_Owned = 2, Purchase_Price = Py 100,
                     Current_Price = Np (Fin 150), Invested_Value = Py 200,
                     Current_Value = Np (Fin 300), Performance = Np (Fin 50)\<rparr>],
                 report_invested = Np (Fin 300), report_current = Np (Fin 300),
                 report_performance = Np (Fin 0)\<rparr>)
   \<and> hk_main [''BABA'', ''ACN''] [''BABA'' \<mapsto> 1, ''ACN'' \<mapsto> 2]
     [''BABA'' \<mapsto> 100, ''ACN'' \<mapsto> 100] [(''ACN'', [Fin 150])] (Py 0.128)
     = Inl (KeyError ''BABA'')
   \<and> loop_round usa_value [''BABA'' \<mapsto> 1, ''ACN'' \<mapsto> 2]
     [''BABA'' \<mapsto> 100, ''ACN'' \<mapsto> 100] [(''ACN'', [Fin 150])] ''BABA'' =
     ([PriceWarning ''BABA''], Inr (Num (Py 100)))"
  by (simp add: hk_main_def hk_row_def usa_main_def usa_row_def df_empty_def
      df_getitem_def df_contains_def iloc_first_def column_def Let_def series_sum_def
      num_positive_def percent_def f64_sub_def
      loop_round_def try_block_def invested_term_def usa_value_def)

section \<open>Currency of the Hong Kong holdings\<close>

text \<open>
  C8. The detail page lists the Hong Kong tickers too, and no rate takes part in its
  sums: a Hong Kong holding of 2 shares bought at 100 and quoted at 150 is shown with an
  invested value of 200 and a current value of 300, the amounts in Hong Kong dollars,
  under the headings in USD. The Hong Kong page, at the rate 1/8, shows 25 and 37.5.
\<close>

theorem detail_page_hk_holding_not_converted:
  "detail_main [''1211.HK'' \<mapsto> [\<lparr>lot_shares = 2, lot_price = 100, lot_date = ''2024-05-05''\<rparr>]]
       ''1211.HK'' [(''Adj Close'', [Fin 150])] [(''Adj Close'', [Fin 500])] =
     Inr (Some \<lparr>stock_data =
                   [\<lparr>Purchase_Date = ''2024-05-05'', Lot_Shares = 2, Lot_Purchase_Price = 100,
                     Lot_Current_Price = Np (Fin 150), Lot_Invested_Value = Py 200,
                     Lot_Current_Value = Np (Fin 300), Lot_Performance = Np (Fin 50)\<rparr>],
                 detail_total_shares = Py 2, detail_total_invested = Py 200,
                 detail_current_value = Np (Fin 300), detail_performance = Np (Fin 50)\<rparr>)
   \<and> hk_main [''1211.HK''] [''1211.HK'' \<mapsto> 2] [''1211.HK'' \<mapsto> 100]
       [(''1211.HK'', [Fin 150])] (Py (1 / 8)) =
     Inr (Some \<lparr>report_rows =
                   [\<lparr>Ticker = ''1211.HK'', Shares_Owned = 2, Purchase_Price = Py (25 / 2),
                     Current_Price = Np (Fin (75 / 4)), Invested_Value = Py 25,
                     Current_Value = Np (Fin (75 / 2)), Performance = Np (Fin 50)\<rparr>],
                 report_invested = Np (Fin 25), report_current = Np (Fin (75 / 2)),
                 report_performance = Np (Fin 50)\<rparr>)"
  by (simp add: hk_main_def hk_row_def detail_main_def detail_row_def df_empty_def
      df_getitem_def iloc_first_def iloc_last_def column_def Let_def series_sum_def
      py_sum_def percent_def f64_sub_def)

section \<open>An exception inside the aggregation\<close>

text \<open>
  C7. When the body of \<open>calculate_portfolio_metrics\<close> raises, the function does not
  raise: it keeps the messages shown so far, shows the error message for the exception,
  and returns the default metrics, in which the invested total, the three current totals
  and the two performances are all 0.
\<close>

theorem metrics_exception_gives_zero_metrics:
  assumes "snd (try_metrics g) = Inl e"
  shows "calculate_portfolio_metrics g =
           (fst (try_metrics g) @ [MetricsError e],
            \<lparr>total_invested = Num (Py 0), total_current_hk = Num (Py 0),
             total_current_usa = Num (Py 0), total_current = Num (Py 0),
             performance_hk = Num (Py 0), performance_usa = Num (Py 0)\<rparr>)"
  using assms
  by (cases "try_metrics g") (simp add: calculate_portfolio_metrics_def zero_metrics_def)

text \<open>
  An evaluation in which the USA shares lack the ticker: the Hong Kong prices are
  missing, which the loop recovers from with a warning, and the \<open>KeyError\<close> of the USA
  sum is caught at the top.
\<close>

theorem metrics_exception_gives_zero_metrics_witness:
  "snd (try_metrics
     \<lparr>portfolio_hk = [''1211.HK''], portfolio_usa = [''VOO''],
      shares_owned_hk = [''1211.HK'' \<mapsto> 2], shares_owned_usa = Map.empty,
      purchase_prices_hk = [''1211.HK'' \<mapsto> 100], purchase_prices_usa = [''VOO'' \<mapsto> 400],
      current_prices_hk = [], current_prices_usa = [(''VOO'', [Fin 500])],
      fx_rate_hkd_to_usd = Py (1 / 8)\<rparr>) = Inl (KeyError ''VOO'')
   \<and> calculate_portfolio_metrics
     \<lparr>portfolio_hk = [''1211.HK''], portfolio_usa = [''VOO''],
      shares_owned_hk = [''1211.HK'' \<mapsto> 2], shares_owned_usa = Map.empty,
      purchase_prices_hk = [''1211.HK'' \<mapsto> 100], purchase_prices_usa = [''VOO'' \<mapsto> 400],
      current_prices_hk = [], current_prices_usa = [(''VOO'', [Fin 500])],
      fx_rate_hkd_to_usd = Py (1 / 8)\<rparr> =
     ([PriceWarning ''1211.HK'', MetricsError (KeyError ''VOO'')],
      \<lparr>total_invested = Num (Py 0), total_current_hk = Num (Py 0),
       total_current_usa = Num (Py 0), total_current = Num (Py 0),
       performance_hk = Num (Py 0), performance_usa = Num (Py 0)\<rparr>)"
proof -
  let ?g = "\<lparr>portfolio_hk = [''1211.HK''], portfolio_usa = [''VOO''],
      shares_owned_hk = [''1211.HK'' \<mapsto> 2], shares_owned_usa = Map.empty,
      purchase_prices_hk = [''1211.HK'' \<mapsto> 100], purchase_prices_usa = [''VOO'' \<mapsto> 400],
      current_prices_hk = [], current_prices_usa = [(''VOO'', [Fin 500])],
      fx_rate_hkd_to_usd = Py (1 / 8)\<rparr>"
  have body: "try_metrics ?g = ([PriceWarning ''1211.HK''], Inl (KeyError ''VOO''))"
    by (simp add: try_metrics_def invested_term_def loop_round_def try_block_def
        df_getitem_def hk_value_def)
  then have raised: "snd (try_metrics ?g) = Inl (KeyError ''VOO'')"
    by simp
  show ?thesis
    using metrics_exception_gives_zero_metrics [OF raised] body by simp
qed

section \<open>The exchange rate when the fetch gives none\<close>

text \<open>
  C5, as stated: whenever the fetch gives no rate, the rate is 0.128. On the Hong Kong
  page an empty frame gives another rate.
\<close>

theorem hk_page_empty_fx_frame_rate: "hk_get_fx_rate (FetchFrame []) \<noteq> Py 0.128"
  by (simp add: hk_get_fx_rate_def df_empty_def)

lemma hk_row_fields:
  assumes "hk_row so pp cp fx t = Inr r"
  shows "\<exists>s p c. so t = Some s \<and> pp t = Some p
           \<and> and_then (df_getitem cp t) iloc_first = Inr c
           \<and> Purchase_Price r = num_mul (Py p) fx \<and> Current_Price r = num_mul c fx
           \<and> Invested_Value r = num_mul (Py s) (num_mul (Py p) fx)
           \<and> Current_Value r = num_mul (Py s) (num_mul c fx)"
proof -
  from assms obtain s where s: "so t = Some s"
    by (cases "so t") (simp_all add: hk_row_def getitem_def)
  from assms s obtain p where p: "pp t = Some p"
    by (cases "pp t") (simp_all add: hk_row_def getitem_def)
  from assms s p obtain c where c: "and_then (df_getitem cp t) iloc_first = Inr c"
    by (cases "and_then (df_getitem cp t) iloc_first") (simp_all add: hk_row_def Let_def)
  from assms s p c show ?thesis
    by (auto simp add: hk_row_def Let_def and_then_eq_Inr)
qed

text \<open>
  C5, amended. On the overview page the rate is 0.128 when the fetch raises, when the
  frame is empty and when it has no \<open>Adj Close\<close> column, and every Hong Kong term of the
  metrics computed from the loaded globals is multiplied by it. On the Hong Kong page the
  rate is 0.128 when the fetch raises and when a frame with rows has no \<open>Adj Close\<close>
  column, and 1 / 7.85 when the frame is empty; in each case the page is computed with
  that rate, which multiplies both prices of every row.
\<close>

theorem fx_fallback_rates:
  "(fetched = FetchRaises
      \<or> fetched = FetchFrame d \<and> (df_empty d \<or> \<not> df_contains d ''Adj Close'') \<longrightarrow>
      (let loaded = snd (load_globals g fh fu fetched) in
         fx_rate_hkd_to_usd loaded = Py 0.128
         \<and> (\<forall>s x. hk_value (fx_rate_hkd_to_usd loaded) s x
                     = num_mul (num_mul (Py s) x) (Py 0.128))
         \<and> (try_metrics loaded = (shown, Inr m) \<longrightarrow>
              (\<exists>ih ch.
                  collect (invested_term (hk_value (Py 0.128)) (shares_owned_hk g)
                    (purchase_prices_hk g)) (portfolio_hk g) = Inr ih
                \<and> collect (\<lambda>t. snd (loop_round (hk_value (Py 0.128)) (shares_owned_hk g)
                    (purchase_prices_hk g) (current_prices_hk loaded) t)) (portfolio_hk g)
                    = Inr ch
                \<and> total_current_hk m = val_sum ch
                \<and> guarded_performance (val_sum ch) (py_sum ih) = Inr (performance_hk m)))))
   \<and> (fetched' = FetchRaises
        \<or> fetched' = FetchFrame d' \<and> \<not> df_empty d' \<and> \<not> df_contains d' ''Adj Close'' \<longrightarrow>
        hk_get_fx_rate fetched' = Py 0.128
        \<and> hk_page pf so pp fp fetched' = hk_main pf so pp (download_data fp) (Py 0.128))
   \<and> (df_empty d'' \<longrightarrow>
        hk_get_fx_rate (FetchFrame d'') = Py (1 / 7.85)
        \<and> hk_page pf so pp fp (FetchFrame d'')
            = hk_main pf so pp (download_data fp) (Py (1 / 7.85)))
   \<and> (hk_row so pp cp fx t = Inr r \<longrightarrow>
        (\<exists>s p c. so t = Some s \<and> pp t = Some p
           \<and> and_then (df_getitem cp t) iloc_first = Inr c
           \<and> Purchase_Price r = num_mul (Py p) fx \<and> Current_Price r = num_mul c fx
           \<and> Invested_Value r = num_mul (Py s) (num_mul (Py p) fx)
           \<and> Current_Value r = num_mul (Py s) (num_mul c fx)))"
proof (intro conjI impI)
  assume no_rate: "fetched = FetchRaises
      \<or> fetched = FetchFrame d \<and> (df_empty d \<or> \<not> df_contains d ''Adj Close'')"
  let ?loaded = "snd (load_globals g fh fu fetched)"
  from no_rate have rate: "fx_rate_or_default fetched = Py 0.128"
    by (auto simp add: fx_rate_or_default_def get_fx_rate_def)
  have fields: "fx_rate_hkd_to_usd ?loaded = fx_rate_or_default fetched"
    "shares_owned_hk ?loaded = shares_owned_hk g"
    "purchase_prices_hk ?loaded = purchase_prices_hk g"
    "portfolio_hk ?loaded = portfolio_hk g"
    by (simp_all add: load_globals_def split: prod.splits)
  have metrics: "\<exists>ih ch.
                  collect (invested_term (hk_value (Py 0.128)) (shares_owned_hk g)
                    (purchase_prices_hk g)) (portfolio_hk g) = Inr ih
                \<and> collect (\<lambda>t. snd (loop_round (hk_value (Py 0.128)) (shares_owned_hk g)
                    (purchase_prices_hk g) (current_prices_hk ?loaded) t)) (portfolio_hk g)
                    = Inr ch
                \<and> total_current_hk m = val_sum ch
                \<and> guarded_performance (val_sum ch) (py_sum ih) = Inr (performance_hk m)"
    if "try_metrics ?loaded = (shown, Inr m)"
  proof -
    from try_metrics_Inr [OF that] obtain ih ch where
      "collect (invested_term (hk_value (fx_rate_hkd_to_usd ?loaded)) (shares_owned_hk ?loaded)
             (purchase_prices_hk ?loaded)) (portfolio_hk ?loaded) = Inr ih"
      "collect (\<lambda>t. snd (loop_round (hk_value (fx_rate_hkd_to_usd ?loaded))
             (shares_owned_hk ?loaded) (purchase_prices_hk ?loaded)
             (current_prices_hk ?loaded) t)) (portfolio_hk ?loaded) = Inr ch"
      "total_current_hk m = val_sum ch"
      "guarded_performance (val_sum ch) (py_sum ih) = Inr (performance_hk m)"
      by blast
    then show ?thesis
      unfolding fields rate by blast
  qed
  show "let loaded = snd (load_globals g fh fu fetched) in
         fx_rate_hkd_to_usd loaded = Py 0.128
         \<and> (\<forall>s x. hk_value (fx_rate_hkd_to_usd loaded) s x
                     = num_mul (num_mul (Py s) x) (Py 0.128))
         \<and> (try_metrics loaded = (shown, Inr m) \<longrightarrow>
              (\<exists>ih ch.
                  collect (invested_term (hk_value (Py 0.128)) (shares_owned_hk g)
                    (purchase_prices_hk g)) (portfolio_hk g) = Inr ih
                \<and> collect (\<lambda>t. snd (loop_round (hk_value (Py 0.128)) (shares_owned_hk g)
                    (purchase_prices_hk g) (current_prices_hk loaded) t)) (portfolio_hk g)
                    = Inr ch
                \<and> total_current_hk m = val_sum ch
                \<and> guarded_performance (val_sum ch) (py_sum ih) = Inr (performance_hk m)))"
    unfolding Let_def
  proof (intro conjI allI impI)
    show "fx_rate_hkd_to_usd ?loaded = Py 0.128" using fields(1) rate by simp
    show "hk_value (fx_rate_hkd_to_usd ?loaded) s x = num_mul (num_mul (Py s) x) (Py 0.128)"
      for s x
      using fields(1) rate by (simp add: hk_value_def)
    show "\<exists>ih ch.
                  collect (invested_term (hk_value (Py 0.128)) (shares_owned_hk g)
                    (purchase_prices_hk g)) (portfolio_hk g) = Inr ih
                \<and> collect (\<lambda>t. snd (loop_round (hk_value (Py 0.128)) (shares_owned_hk g)
                    (purchase_prices_hk g) (current_prices_hk ?loaded) t)) (portfolio_hk g)
                    = Inr ch
                \<and> total_current_hk m = val_sum ch
                \<and> guarded_performance (val_sum ch) (py_sum ih) = Inr (performance_hk m)"
      if "try_metrics ?loaded = (shown, Inr m)"
      using metrics [OF that] .
  qed
next
  assume no_rate: "fetched' = FetchRaises
        \<or> fetched' = FetchFrame d' \<and> \<not> df_empty d' \<and> \<not> df_contains d' ''Adj Close''"
  then show rate: "hk_get_fx_rate fetched' = Py 0.128"
    by (auto simp add: hk_get_fx_rate_def df_contains_def df_getitem_def)
  then show "hk_page pf so pp fp fetched' = hk_main pf so pp (download_data fp) (Py 0.128)"
    by (simp add: hk_page_def)
next
  assume "df_empty d''"
  then show rate: "hk_get_fx_rate (FetchFrame d'') = Py (1 / 7.85)"
    by (simp add: hk_get_fx_rate_def)
  then show "hk_page pf so pp fp (FetchFrame d'')
            = hk_main pf so pp (download_data fp) (Py (1 / 7.85))"
    by (simp add: hk_page_def)
next
  assume "hk_row so pp cp fx t = Inr r"
  then show "\<exists>s p c. so t = Some s \<and> pp t = Some p
           \<and> and_then (df_getitem cp t) iloc_first = Inr c
           \<and> Purchase_Price r = num_mul (Py p) fx \<and> Current_Price r = num_mul c fx
           \<and> Invested_Value r = num_mul (Py s) (num_mul (Py p) fx)
           \<and> Current_Value r = num_mul (Py s) (num_mul c fx)"
    by (rule hk_row_fields)
qed

text \<open>
  An overview page whose exchange-rate frame is empty and whose USA fetch raised, a
  Hong Kong page whose exchange-rate frame has rows but no \<open>Adj Close\<close> column, and a
  Hong Kong page whose exchange-rate frame is empty.
\<close>

theorem fx_fallback_rates_witness:
  "fx_rate_hkd_to_usd (snd (load_globals
     \<lparr>portfolio_hk = [''1211.HK''], portfolio_usa = [],
      shares_owned_hk = [''1211.HK'' \<mapsto> 2], shares_owned_usa = Map.empty,
      purchase_prices_hk = [''1211.HK'' \<mapsto> 100], purchase_prices_usa = Map.empty,
      current_prices_hk = [], current_prices_usa = [], fx_rate_hkd_to_usd = Py 1\<rparr>
     (Some [(''1211.HK'', [Fin 150])]) None (FetchFrame []))) = Py 0.128
   \<and> try_metrics (snd (load_globals
     \<lparr>portfolio_hk = [''1211.HK''], portfolio_usa = [],
      shares_owned_hk = [''1211.HK'' \<mapsto> 2], shares_owned_usa = Map.empty,
      purchase_prices_hk = [''1211.HK'' \<mapsto> 100], purchase_prices_usa = Map.empty,
      current_prices_hk = [], current_prices_usa = [], fx_rate_hkd_to_usd = Py 1\<rparr>
     (Some [(''1211.HK'', [Fin 150])]) None (FetchFrame []))) =
     ([], Inr \<lparr>total_invested = Num (Py 25.6), total_current_hk = Num (Np (Fin 38.4)),
               total_current_usa = Num (Py 0), total_current = Num (Np (Fin 38.4)),
               performance_hk = Num (Np (Fin 50)), performance_usa = Num (Py 0)\<rparr>)
   \<and> hk_page [''1211.HK''] [''1211.HK'' \<mapsto> 2] [''1211.HK'' \<mapsto> 100]
       (Some [(''1211.HK'', [Fin 150])]) (FetchFrame [(''Close'', [Fin 7.8])]) =
     Inr (Some \<lparr>report_rows =
                   [\<lparr>Ticker = ''1211.HK'', Shares_Owned = 2, Purchase_Price = Py 12.8,
                     Current_Price = Np (Fin 19.2), Invested_Value = Py 25.6,
                     Current_Value = Np (Fin 38.4), Performance = Np (Fin 50)\<rparr>],
                 report_invested = Np (Fin 25.6), report_current = Np (Fin 38.4),
                 report_performance = Np (Fin 50)\<rparr>)
   \<and> hk_page [''1211.HK''] [''1211.HK'' \<mapsto> 2] [''1211.HK'' \<mapsto> 100]
       (Some [(''1211.HK'', [Fin 150])]) (FetchFrame []) =
     Inr (Some \<lparr>report_rows =
                   [\<lparr>Ticker = ''1211.HK'', Shares_Owned = 2, Purchase_Price = Py (2000 / 157),
                     Current_Price = Np (Fin (3000 / 157)), Invested_Value = Py (4000 / 157),
                     Current_Value = Np (Fin (6000 / 157)), Performance = Np (Fin 50)\<rparr>],
                 report_invested = Np (Fin (4000 / 157)),
                 report_current = Np (Fin (6000 / 157)),
                 report_performance = Np (Fin 50)\<rparr>)"
proof -
  let ?g = "\<lparr>portfolio_hk = [''1211.HK''], portfolio_usa = [],
      shares_owned_hk = [''1211.HK'' \<mapsto> 2], shares_owned_usa = Map.empty,
      purchase_prices_hk = [''1211.HK'' \<mapsto> 100], purchase_prices_usa = Map.empty,
      current_prices_hk = [], current_prices_usa = [], fx_rate_hkd_to_usd = Py 1\<rparr>"
  let ?m = "\<lparr>total_invested = Num (Py 25.6), total_current_hk = Num (Np (Fin 38.4)),
               total_current_usa = Num (Py 0), total_current = Num (Np (Fin 38.4)),
               performance_hk = Num (Np (Fin 50)), performance_usa = Num (Py 0)\<rparr>"
  let ?row = "\<lparr>Ticker = ''1211.HK'', Shares_Owned = 2, Purchase_Price = Py (2000 / 157),
                     Current_Price = Np (Fin (3000 / 157)), Invested_Value = Py (4000 / 157),
                     Current_Value = Np (Fin (6000 / 157)), Performance = Np (Fin 50)\<rparr>"
  have overview: "try_metrics (snd (load_globals ?g (Some [(''1211.HK'', [Fin 150])]) None
      (FetchFrame []))) = ([], Inr ?m)"
    by (simp add: load_globals_def overview_download_data_def fx_rate_or_default_def
        get_fx_rate_def df_empty_def try_metrics_def invested_term_def loop_round_def
        try_block_def getitem_def df_getitem_def hk_value_def guarded_performance_def
        num_is_zero_def percent_def f64_sub_def)
  have frame: "\<not> df_empty [(''Close'', [Fin 7.8])] \<and> \<not> df_contains [(''Close'', [Fin 7.8])] ''Adj Close''"
    by (simp add: df_empty_def df_contains_def)
  have main_128: "hk_main [''1211.HK''] [''1211.HK'' \<mapsto> 2] [''1211.HK'' \<mapsto> 100]
       (download_data (Some [(''1211.HK'', [Fin 150])])) (Py 0.128) =
     Inr (Some \<lparr>report_rows =
                   [\<lparr>Ticker = ''1211.HK'', Shares_Owned = 2, Purchase_Price = Py 12.8,
                     Current_Price = Np (Fin 19.2), Invested_Value = Py 25.6,
                     Current_Value = Np (Fin 38.4), Performance = Np (Fin 50)\<rparr>],
                 report_invested = Np (Fin 25.6), report_current = Np (Fin 38.4),
                 report_performance = Np (Fin 50)\<rparr>)"
    by (simp add: download_data_def hk_main_def hk_row_def df_empty_def df_getitem_def
        getitem_def iloc_first_def column_def Let_def series_sum_def percent_def f64_sub_def)
  have main_785: "hk_main [''1211.HK''] [''1211.HK'' \<mapsto> 2] [''1211.HK'' \<mapsto> 100]
       (download_data (Some [(''1211.HK'', [Fin 150])])) (Py (1 / 7.85)) =
     Inr (Some \<lparr>report_rows = [?row],
                 report_invested = Np (Fin (4000 / 157)),
                 report_current = Np (Fin (6000 / 157)),
                 report_performance = Np (Fin 50)\<rparr>)"
    by (simp add: download_data_def hk_main_def hk_row_def df_empty_def df_getitem_def
        getitem_def iloc_first_def column_def Let_def series_sum_def percent_def f64_sub_def)
  have row: "hk_row [''1211.HK'' \<mapsto> 2] [''1211.HK'' \<mapsto> 100] [(''1211.HK'', [Fin 150])]
       (Py (1 / 7.85)) ''1211.HK'' = Inr ?row"
    by (simp add: hk_row_def df_getitem_def getitem_def iloc_first_def Let_def
        percent_def f64_sub_def)
  have empty: "df_empty []"
    by (simp add: df_empty_def)
  show ?thesis
    using fx_fallback_rates [where fetched = "FetchFrame []" and d = "[]" and g = ?g
        and fh = "Some [(''1211.HK'', [Fin 150])]" and fu = None and shown = "[]" and m = ?m
        and fetched' = "FetchFrame [(''Close'', [Fin 7.8])]" and d' = "[(''Close'', [Fin 7.8])]"
        and d'' = "[]" and pf = "[''1211.HK'']" and so = "[''1211.HK'' \<mapsto> 2]"
        and pp = "[''1211.HK'' \<mapsto> 100]" and fp = "Some [(''1211.HK'', [Fin 150])]"
        and cp = "[(''1211.HK'', [Fin 150])]" and fx = "Py (1 / 7.85)" and t = "''1211.HK''"
        and r = ?row]
      overview frame main_128 main_785 row empty
    by (simp add: Let_def)
qed

end
